theory Spec2Isabelle
  imports Main "HOL-Library.AList"
begin

section \<open>Python values, strings and exceptions\<close>

text \<open>
  A Python \<^verbatim>\<open>str\<close> is a sequence of Unicode code points, and the lookup tables of
  \<^verbatim>\<open>settings.py\<close> have Cyrillic keys, so a string is modelled as the list of its code
  points. The names of dictionary keys that the source writes as ASCII literals
  (\<^verbatim>\<open>"subjects"\<close>, \<^verbatim>\<open>'category_id'\<close>, ...) are HOL strings.
\<close>

type_synonym pystr = "nat list"

text \<open>
  The members of a filter set are strings or integers (\<^verbatim>\<open>Dict[str, Set]\<close>, with the
  values the bot puts there).
\<close>

datatype pyval = PInt int | PStr pystr

text \<open>
  The exceptions that can occur: \<^verbatim>\<open>APIError\<close> of the API client, \<^verbatim>\<open>ValueError\<close> of
  \<^verbatim>\<open>int\<close>, \<^verbatim>\<open>KeyError\<close> of \<^verbatim>\<open>result['courses']\<close>, \<^verbatim>\<open>ImportError\<close> of the import of
  the mock data, and any other subclass of \<^verbatim>\<open>Exception\<close> that the API client may raise.
\<close>

datatype exn = APIError | ValueError | KeyError | ImportError | OtherError

subsection \<open>\<^verbatim>\<open>str.isdigit\<close> and \<^verbatim>\<open>int\<close>\<close>

text \<open>
  \<^verbatim>\<open>str.isdigit\<close> accepts every character whose Unicode numeric type is Decimal or
  Digit; \<^verbatim>\<open>int\<close> converts characters of type Decimal only. The decimal digits of
  Unicode come in runs of ten, from the zero of each script; \<open>decimal_zeros\<close> lists the
  zeros, and \<open>other_digits\<close> the ranges of the characters of type Digit that are not
  Decimal (superscripts, subscripts, circled digits, ...), both as of Unicode 14.0.
\<close>

definition decimal_zeros :: "nat list" where
  "decimal_zeros =
    [48, 1632, 1776, 1984, 2406, 2534, 2662, 2790, 2918, 3046, 3174, 3302, 3430, 3558,
     3664, 3792, 3872, 4160, 4240, 6112, 6160, 6470, 6608, 6784, 6800, 6992, 7088, 7232,
     7248, 42528, 43216, 43264, 43472, 43504, 43600, 44016, 65296, 66720, 68912, 69734,
     69872, 69942, 70096, 70384, 70736, 70864, 71248, 71360, 71472, 71904, 72016, 72784,
     73040, 73120, 92768, 92864, 93008, 120782, 120792, 120802, 120812, 120822, 123200,
     123632, 125264, 130032]"

definition other_digits :: "(nat \<times> nat) list" where
  "other_digits =
    [(178, 179), (185, 185), (4969, 4977), (6618, 6618), (8304, 8304), (8308, 8313),
     (8320, 8329), (9312, 9320), (9332, 9340), (9352, 9360), (9450, 9450), (9461, 9469),
     (9471, 9471), (10102, 10110), (10112, 10120), (10122, 10130), (68160, 68163),
     (69216, 69224), (69714, 69722), (127232, 127242)]"

definition decimal_value :: "nat \<Rightarrow> nat option" where
  "decimal_value c =
    (case find (\<lambda>z. z \<le> c \<and> c < z + 10) decimal_zeros of
       None \<Rightarrow> None
     | Some z \<Rightarrow> Some (c - z))"

definition is_digit_char :: "nat \<Rightarrow> bool" where
  "is_digit_char c \<longleftrightarrow>
    decimal_value c \<noteq> None \<or> list_ex (\<lambda>(lo, hi). lo \<le> c \<and> c \<le> hi) other_digits"

definition isdigit :: "pystr \<Rightarrow> bool" where
  "isdigit s \<longleftrightarrow> s \<noteq> [] \<and> list_all is_digit_char s"

text \<open>
  CPython refuses to convert a string of more than 4300 digits
  (\<^verbatim>\<open>sys.int_info.default_max_str_digits\<close>).
\<close>

definition max_str_digits :: nat where
  "max_str_digits = 4300"

text \<open>
  \<^verbatim>\<open>int(s)\<close> for a string \<open>s\<close> of digit characters, the only strings the source passes
  to it (the call is guarded by \<^verbatim>\<open>s.isdigit()\<close>): the base-10 value when every
  character is a decimal digit, \<^verbatim>\<open>ValueError\<close> otherwise.
\<close>

definition py_int :: "pystr \<Rightarrow> exn + int" where
  "py_int s =
    (if s = [] \<or> max_str_digits < length s then Inl ValueError
     else case those (map decimal_value s) of
            None \<Rightarrow> Inl ValueError
          | Some ds \<Rightarrow> Inr (int (foldl (\<lambda>a d. 10 * a + d) 0 ds)))"

section \<open>Configuration: the lookup tables of \<^verbatim>\<open>settings.py\<close>\<close>

text \<open>
  The dictionaries are association lists in the order of the literals; their keys are
  pairwise distinct, so \<open>map_of\<close> is the dictionary lookup. The Cyrillic keys are
  written as code points.
\<close>

definition SUBJECT_TO_CATEGORY :: "(pystr \<times> int) list" where
  "SUBJECT_TO_CATEGORY =
    [([1048, 1089, 1082, 1091, 1089, 1089, 1090, 1074, 1077, 1085, 1085, 1099, 1081, 32,
       1080, 1085, 1090, 1077, 1083, 1083, 1077, 1082, 1090], 1),
     ([1055, 1088, 1086, 1075, 1088, 1072, 1084, 1084, 1080, 1088, 1086, 1074, 1072, 1085,
       1080, 1077], 2),
     ([1048, 1085, 1092, 1086, 1088, 1084, 1072, 1094, 1080, 1086, 1085, 1085, 1072, 1103,
       32, 1073, 1077, 1079, 1086, 1087, 1072, 1089, 1085, 1086, 1089, 1090, 1100], 3),
     ([1056, 1086, 1073, 1086, 1090, 1086, 1090, 1077, 1093, 1085, 1080, 1082, 1072], 4),
     ([1055, 1088, 1077, 1076, 1087, 1088, 1080, 1085, 1080, 1084, 1072, 1090, 1077, 1083,
       1100, 1089, 1090, 1074, 1086], 5),
     ([1060, 1080, 1085, 1072, 1085, 1089, 1086, 1074, 1072, 1103, 32, 1075, 1088, 1072,
       1084, 1086, 1090, 1085, 1086, 1089, 1090, 1100], 6),
     ([1053, 1072, 1091, 1082, 1072], 7)]"

definition BEGINNER :: pystr where
  "BEGINNER = [66, 69, 71, 73, 78, 78, 69, 82]"

definition INTERMEDIATE :: pystr where
  "INTERMEDIATE = [73, 78, 84, 69, 82, 77, 69, 68, 73, 65, 84, 69]"

definition ADVANCED :: pystr where
  "ADVANCED = [65, 68, 86, 65, 78, 67, 69, 68]"

definition DIFFICULTY_TO_LEVEL :: "(pystr \<times> pystr) list" where
  "DIFFICULTY_TO_LEVEL =
    [([1053, 1072, 1095, 1072, 1083, 1100, 1085, 1099, 1081], BEGINNER),
     ([1057, 1088, 1077, 1076, 1085, 1080, 1081], INTERMEDIATE),
     ([1055, 1088, 1086, 1076, 1074, 1080, 1085, 1091, 1090, 1099, 1081], ADVANCED)]"

definition GRADE_TO_ID :: "(int \<times> int) list" where
  "GRADE_TO_ID = [(7, 1), (8, 2), (9, 3), (10, 4), (11, 5)]"

section \<open>Data model\<close>

text \<open>
  The filter bag is a dictionary from the dimension name to a set of values. A Python
  set is modelled by the list of its members in the order its iteration yields them.
\<close>

type_synonym filter_bag = "string \<rightharpoonup> pyval list"

text \<open>
  A course record is a dictionary; the fields the service reads are \<^verbatim>\<open>id\<close>,
  \<^verbatim>\<open>subjects\<close>, \<^verbatim>\<open>difficulty\<close> and \<^verbatim>\<open>grade\<close>, each of which may be missing
  (\<open>None\<close>), with the types of the data model. Further fields are the extension of
  the record.
\<close>

record course =
  course_id :: "int option"
  course_subjects :: "pystr list option"
  course_difficulty :: "pystr option"
  course_grade :: "int list option"

text \<open>The API parameters: a dictionary built by assignments, in insertion order.\<close>

type_synonym api_params = "(string \<times> pyval) list"

section \<open>\<^verbatim>\<open>CourseService\<close>\<close>

text \<open>
  \<^verbatim>\<open>if filters.get(k): ... filters[k]\<close>: the test is true when the key is present with
  a non-empty set, and the body then reads that set.
\<close>

definition selected :: "filter_bag \<Rightarrow> string \<Rightarrow> pyval list option" where
  "selected filters k =
    (case filters k of
       None \<Rightarrow> None
     | Some [] \<Rightarrow> None
     | Some (x # xs) \<Rightarrow> Some (x # xs))"

subsection \<open>\<^verbatim>\<open>_convert_filters_to_api_params\<close>\<close>

text \<open>\<^verbatim>\<open>subject in SUBJECT_TO_CATEGORY\<close> and \<^verbatim>\<open>SUBJECT_TO_CATEGORY[subject]\<close>.\<close>

definition subject_category :: "pyval \<Rightarrow> int option" where
  "subject_category v = (case v of PStr s \<Rightarrow> map_of SUBJECT_TO_CATEGORY s | PInt n \<Rightarrow> None)"

definition difficulty_level :: "pyval \<Rightarrow> pystr option" where
  "difficulty_level v = (case v of PStr s \<Rightarrow> map_of DIFFICULTY_TO_LEVEL s | PInt n \<Rightarrow> None)"

definition grade_id :: "pyval \<Rightarrow> int option" where
  "grade_id v = (case v of PInt n \<Rightarrow> map_of GRADE_TO_ID n | PStr s \<Rightarrow> None)"

text \<open>
  \<^verbatim>\<open>if isinstance(grade, str) and grade.isdigit(): grade = int(grade)\<close>
\<close>

definition normalize_grade :: "pyval \<Rightarrow> exn + pyval" where
  "normalize_grade g =
    (case g of
       PStr s \<Rightarrow>
         (if isdigit s then (case py_int s of Inl e \<Rightarrow> Inl e | Inr n \<Rightarrow> Inr (PInt n))
          else Inr g)
     | PInt n \<Rightarrow> Inr g)"

text \<open>The three \<^verbatim>\<open>for ... break\<close> loops, each over the members in iteration order.\<close>

fun convert_subjects :: "pyval list \<Rightarrow> api_params \<Rightarrow> api_params" where
  "convert_subjects [] ps = ps"
| "convert_subjects (subject # subjects) ps =
    (case subject_category subject of
       Some v \<Rightarrow> AList.update ''category_id'' (PInt v) ps
     | None \<Rightarrow> convert_subjects subjects ps)"

fun convert_difficulties :: "pyval list \<Rightarrow> api_params \<Rightarrow> api_params" where
  "convert_difficulties [] ps = ps"
| "convert_difficulties (d # ds) ps =
    (case difficulty_level d of
       Some v \<Rightarrow> AList.update ''level'' (PStr v) ps
     | None \<Rightarrow> convert_difficulties ds ps)"

fun convert_grades :: "pyval list \<Rightarrow> api_params \<Rightarrow> exn + api_params" where
  "convert_grades [] ps = Inr ps"
| "convert_grades (g # gs) ps =
    (case normalize_grade g of
       Inl e \<Rightarrow> Inl e
     | Inr g' \<Rightarrow>
         (case grade_id g' of
            Some v \<Rightarrow> Inr (AList.update ''grade_id'' (PInt v) ps)
          | None \<Rightarrow> convert_grades gs ps))"

definition convert_filters_to_api_params :: "filter_bag \<Rightarrow> exn + api_params" where
  "convert_filters_to_api_params filters =
    (let ps0 = [];
         ps1 = (case selected filters ''subjects'' of
                  None \<Rightarrow> ps0
                | Some subjects \<Rightarrow> convert_subjects subjects ps0);
         ps2 = (case selected filters ''difficulty'' of
                  None \<Rightarrow> ps1
                | Some difficulties \<Rightarrow> convert_difficulties difficulties ps1)
     in case selected filters ''grade'' of
          None \<Rightarrow> Inr ps2
        | Some grades \<Rightarrow> convert_grades grades ps2)"

subsection \<open>\<^verbatim>\<open>_filter_courses_locally\<close>\<close>

text \<open>\<^verbatim>\<open>subject in course_subjects\<close>, for a list of strings.\<close>

definition in_strs :: "pyval \<Rightarrow> pystr list \<Rightarrow> bool" where
  "in_strs v xs = (case v of PStr s \<Rightarrow> s \<in> set xs | PInt n \<Rightarrow> False)"

definition subjects_match :: "filter_bag \<Rightarrow> 'a course_scheme \<Rightarrow> bool" where
  "subjects_match filters c =
    (case selected filters ''subjects'' of
       None \<Rightarrow> True
     | Some subjects \<Rightarrow>
         (let cs = (case course_subjects c of None \<Rightarrow> [] | Some l \<Rightarrow> l)
          in list_ex (\<lambda>subject. in_strs subject cs) subjects))"

text \<open>
  \<^verbatim>\<open>{v: k for k, v in DIFFICULTY_TO_LEVEL.items()}\<close>: a later item overwrites an earlier
  one with the same value.
\<close>

definition api_to_bot_difficulty :: "(pystr \<times> pystr) list" where
  "api_to_bot_difficulty = fold (\<lambda>(k, v) d. AList.update v k d) DIFFICULTY_TO_LEVEL []"

definition difficulty_match :: "filter_bag \<Rightarrow> 'a course_scheme \<Rightarrow> bool" where
  "difficulty_match filters c =
    (case selected filters ''difficulty'' of
       None \<Rightarrow> True
     | Some difficulties \<Rightarrow>
         (let cd = (case course_difficulty c of None \<Rightarrow> [] | Some d \<Rightarrow> d);
              bot_difficulty = (case map_of api_to_bot_difficulty cd of
                                  None \<Rightarrow> cd
                                | Some b \<Rightarrow> b)
          in PStr bot_difficulty \<in> set difficulties))"

text \<open>
  The loop that fills \<^verbatim>\<open>user_grades\<close>, a set of integers (a list without
  duplicates here); a member that is neither a digit string nor an integer is skipped.
\<close>

fun user_grades :: "pyval list \<Rightarrow> int list \<Rightarrow> exn + int list" where
  "user_grades [] acc = Inr acc"
| "user_grades (g # gs) acc =
    (case g of
       PStr s \<Rightarrow>
         (if isdigit s
          then (case py_int s of
                  Inl e \<Rightarrow> Inl e
                | Inr n \<Rightarrow> user_grades gs (List.insert n acc))
          else user_grades gs acc)
     | PInt n \<Rightarrow> user_grades gs (List.insert n acc))"

definition grade_match :: "filter_bag \<Rightarrow> 'a course_scheme \<Rightarrow> exn + bool" where
  "grade_match filters c =
    (case selected filters ''grade'' of
       None \<Rightarrow> Inr True
     | Some grades \<Rightarrow>
         (let cg = (case course_grade c of None \<Rightarrow> [] | Some l \<Rightarrow> l)
          in case user_grades grades [] of
               Inl e \<Rightarrow> Inl e
             | Inr ug \<Rightarrow> Inr (list_ex (\<lambda>grade. grade \<in> set cg) ug)))"

text \<open>
  The loop over the courses: the three tests are all evaluated, then the course is
  appended to \<^verbatim>\<open>results\<close> when all hold.
\<close>

fun filter_loop ::
  "'a course_scheme list \<Rightarrow> filter_bag \<Rightarrow> 'a course_scheme list \<Rightarrow> exn + 'a course_scheme list"
where
  "filter_loop [] filters results = Inr results"
| "filter_loop (c # cs) filters results =
    (let sm = subjects_match filters c;
         dm = difficulty_match filters c
     in case grade_match filters c of
          Inl e \<Rightarrow> Inl e
        | Inr gm \<Rightarrow>
            filter_loop cs filters (if sm \<and> dm \<and> gm then results @ [c] else results))"

definition filter_courses_locally ::
  "'a course_scheme list \<Rightarrow> filter_bag \<Rightarrow> exn + 'a course_scheme list"
where
  "filter_courses_locally courses filters =
    (if courses = [] then Inr [] else filter_loop courses filters [])"

subsection \<open>The collaborators: the API client and the mock data\<close>

text \<open>
  The API client (\<^verbatim>\<open>api.client\<close>) is outside the service: its two operations are
  parameters, each returning its value or raising. \<^verbatim>\<open>get_courses\<close> returns a
  dictionary, which the service indexes with \<^verbatim>\<open>'courses'\<close>.
\<close>

type_synonym 'c response = "string \<rightharpoonup> 'c list"

record 'c api_client =
  get_courses :: "api_params \<Rightarrow> exn + 'c response"
  get_all_courses :: "exn + 'c list"

definition is_api_available :: "'c api_client option \<Rightarrow> bool" where
  "is_api_available client \<longleftrightarrow> client \<noteq> None"

subsection \<open>\<^verbatim>\<open>_get_fallback_courses\<close>\<close>

text \<open>
  The mock data \<^verbatim>\<open>COURSES\<close> of \<^verbatim>\<open>data.mock_courses\<close> is a parameter: \<open>None\<close> when
  the import raises \<^verbatim>\<open>ImportError\<close>. The \<^verbatim>\<open>except ImportError\<close> clause covers the
  call of the local filter too; every other exception propagates.
\<close>

definition get_fallback_courses ::
  "'a course_scheme list option \<Rightarrow> filter_bag \<Rightarrow> exn + 'a course_scheme list"
where
  "get_fallback_courses mock filters =
    (case mock of
       None \<Rightarrow> Inr []
     | Some COURSES \<Rightarrow>
         (case filter_courses_locally COURSES filters of
            Inl e \<Rightarrow> if e = ImportError then Inr [] else Inl e
          | Inr res \<Rightarrow> Inr res))"

subsection \<open>\<^verbatim>\<open>filter_courses\<close>\<close>

text \<open>\<^verbatim>\<open>result['courses']\<close>\<close>

definition courses_of :: "'c response \<Rightarrow> exn + 'c list" where
  "courses_of result = (case result ''courses'' of None \<Rightarrow> Inl KeyError | Some cs \<Rightarrow> Inr cs)"

text \<open>The body of the \<^verbatim>\<open>try\<close> block.\<close>

definition fetch_and_filter ::
  "'a course_scheme api_client \<Rightarrow> filter_bag \<Rightarrow> exn + 'a course_scheme list"
where
  "fetch_and_filter api filters =
    (case convert_filters_to_api_params filters of
       Inl e \<Rightarrow> Inl e
     | Inr ps \<Rightarrow>
         (case (if ps \<noteq> []
                then (case get_courses api ps of
                        Inl e \<Rightarrow> Inl e
                      | Inr result \<Rightarrow> courses_of result)
                else get_all_courses api) of
            Inl e \<Rightarrow> Inl e
          | Inr courses \<Rightarrow> filter_courses_locally courses filters))"

definition filter_courses ::
  "'a course_scheme api_client option \<Rightarrow> 'a course_scheme list option \<Rightarrow> filter_bag
    \<Rightarrow> exn + 'a course_scheme list"
where
  "filter_courses client mock filters =
    (case client of
       None \<Rightarrow> get_fallback_courses mock filters
     | Some api \<Rightarrow>
         (case fetch_and_filter api filters of
            Inr filtered_courses \<Rightarrow> Inr filtered_courses
          | Inl e \<Rightarrow>
              if e = APIError then get_fallback_courses mock filters
              else get_fallback_courses mock filters))"

subsection \<open>\<^verbatim>\<open>get_course_by_id\<close>\<close>

definition get_course_by_id ::
  "'a course_scheme api_client option \<Rightarrow> int \<Rightarrow> exn + 'a course_scheme option"
where
  "get_course_by_id client cid =
    (case client of
       None \<Rightarrow> Inr None
     | Some api \<Rightarrow>
         (case get_all_courses api of
            Inl e \<Rightarrow> Inr None
          | Inr all_courses \<Rightarrow> Inr (find (\<lambda>course. course_id course = Some cid) all_courses)))"

section \<open>The specification's vocabulary\<close>

text \<open>
  The definitions of this section follow the words of the specification, not the code;
  the theorems compare the code with them.

  A dimension of the filter bag that is absent or empty puts no constraint:
  \<open>dimension\<close> is the set of selected values, empty in both cases.
\<close>

definition dimension :: "filter_bag \<Rightarrow> string \<Rightarrow> pyval list" where
  "dimension filters k = (case filters k of None \<Rightarrow> [] | Some xs \<Rightarrow> xs)"

text \<open>
  The user's grades normalised to integers: an integer as it is, a digit string as the
  integer it converts to; every other member contributes nothing.
\<close>

definition normalized_grades :: "pyval list \<Rightarrow> int list" where
  "normalized_grades gs =
    concat (map (\<lambda>g. case g of
                        PInt n \<Rightarrow> [n]
                      | PStr s \<Rightarrow> (if isdigit s
                                   then (case py_int s of Inl e \<Rightarrow> [] | Inr n \<Rightarrow> [n])
                                   else [])) gs)"

text \<open>Every member that \<^verbatim>\<open>isdigit\<close> accepts is one that \<^verbatim>\<open>int\<close> converts.\<close>

definition grades_convert :: "pyval list \<Rightarrow> bool" where
  "grades_convert gs =
    list_all (\<lambda>g. case g of
                    PInt n \<Rightarrow> True
                  | PStr s \<Rightarrow> (if isdigit s
                               then (case py_int s of Inl e \<Rightarrow> False | Inr n \<Rightarrow> True)
                               else True)) gs"

text \<open>The fields of a candidate, with the defaults of a missing field.\<close>

definition subjects_of :: "'a course_scheme \<Rightarrow> pystr list" where
  "subjects_of c = (case course_subjects c of None \<Rightarrow> [] | Some l \<Rightarrow> l)"

definition difficulty_of :: "'a course_scheme \<Rightarrow> pystr" where
  "difficulty_of c = (case course_difficulty c of None \<Rightarrow> [] | Some d \<Rightarrow> d)"

definition grades_of :: "'a course_scheme \<Rightarrow> int list" where
  "grades_of c = (case course_grade c of None \<Rightarrow> [] | Some l \<Rightarrow> l)"

text \<open>
  The inverse of the difficulty lookup table: the label of an API level, or the level
  itself when the table has no label for it.
\<close>

definition inverse_label :: "pystr \<Rightarrow> pystr" where
  "inverse_label code =
    (case find (\<lambda>(label, level). level = code) DIFFICULTY_TO_LEVEL of
       None \<Rightarrow> code
     | Some (label, level) \<Rightarrow> label)"

text \<open>The three predicates of the local evaluator, and their conjunction.\<close>

definition spec_subject_match :: "filter_bag \<Rightarrow> 'a course_scheme \<Rightarrow> bool" where
  "spec_subject_match filters c \<longleftrightarrow>
    dimension filters ''subjects'' = [] \<or>
    (\<exists>s \<in> set (subjects_of c). PStr s \<in> set (dimension filters ''subjects''))"

definition spec_difficulty_match :: "filter_bag \<Rightarrow> 'a course_scheme \<Rightarrow> bool" where
  "spec_difficulty_match filters c \<longleftrightarrow>
    dimension filters ''difficulty'' = [] \<or>
    PStr (inverse_label (difficulty_of c)) \<in> set (dimension filters ''difficulty'')"

definition spec_grade_match :: "filter_bag \<Rightarrow> 'a course_scheme \<Rightarrow> bool" where
  "spec_grade_match filters c \<longleftrightarrow>
    dimension filters ''grade'' = [] \<or>
    (\<exists>g \<in> set (grades_of c). g \<in> set (normalized_grades (dimension filters ''grade'')))"

definition spec_keep :: "filter_bag \<Rightarrow> 'a course_scheme \<Rightarrow> bool" where
  "spec_keep filters c \<longleftrightarrow>
    spec_subject_match filters c \<and> spec_difficulty_match filters c \<and>
    spec_grade_match filters c"

text \<open>
  The translator's choice for one dimension: the image of the first member, in
  iteration order, that the lookup table has.
\<close>

fun first_mapped :: "('a \<Rightarrow> 'b option) \<Rightarrow> 'a list \<Rightarrow> 'b option" where
  "first_mapped t [] = None"
| "first_mapped t (x # xs) = (case t x of Some v \<Rightarrow> Some v | None \<Rightarrow> first_mapped t xs)"

definition spec_params :: "filter_bag \<Rightarrow> api_params" where
  "spec_params filters =
    (case first_mapped subject_category (dimension filters ''subjects'') of
       None \<Rightarrow> []
     | Some v \<Rightarrow> [(''category_id'', PInt v)]) @
    (case first_mapped difficulty_level (dimension filters ''difficulty'') of
       None \<Rightarrow> []
     | Some v \<Rightarrow> [(''level'', PStr v)]) @
    (case first_mapped (map_of GRADE_TO_ID) (normalized_grades (dimension filters ''grade'')) of
       None \<Rightarrow> []
     | Some v \<Rightarrow> [(''grade_id'', PInt v)])"


section \<open>The two filter functions on an object store\<close>

text \<open>
  Python passes the filter bag, its sets, the candidate list and the candidate records by
  reference, so whether a function leaves them as they were is a question about the
  objects it writes. This section gives \<^verbatim>\<open>_convert_filters_to_api_params\<close> and
  \<^verbatim>\<open>_filter_courses_locally\<close> a second time, on a store of objects: every container
  the source creates (\<^verbatim>\<open>api_params = {}\<close>, \<^verbatim>\<open>results = []\<close>, \<^verbatim>\<open>user_grades = set()\<close>) is
  allocated, and every statement that changes a container (\<^verbatim>\<open>api_params[...] = ...\<close>,
  \<^verbatim>\<open>results.append(course)\<close>, \<^verbatim>\<open>user_grades.add(...)\<close>) is a write to the store at the
  address of that container. All other statements read. The dictionary
  \<^verbatim>\<open>api_to_bot_difficulty\<close> is built by a comprehension and only read afterwards; it
  stays a value.
\<close>

type_synonym addr = nat

datatype obj =
    OSet "pyval list"
  | OFilters "(string \<times> addr) list"
  | OCourse course
  | OCourses "addr list"
  | OParams api_params
  | OInts "int list"

text \<open>The store: the objects, and the first address that has never been allocated.\<close>

record store =
  objs :: "addr \<rightharpoonup> obj"
  lim :: addr

definition alloc :: "obj \<Rightarrow> store \<Rightarrow> addr \<times> store" where
  "alloc ob s = (lim s, s\<lparr>objs := (objs s)(lim s \<mapsto> ob), lim := Suc (lim s)\<rparr>)"

definition put :: "addr \<Rightarrow> obj \<Rightarrow> store \<Rightarrow> store" where
  "put a ob s = s\<lparr>objs := (objs s)(a \<mapsto> ob)\<rparr>"

text \<open>
  Reading the filter bag at address \<open>fa\<close>: the dictionary and, behind each of its
  values, the set.
\<close>

definition bag_of :: "store \<Rightarrow> addr \<Rightarrow> filter_bag option" where
  "bag_of s fa =
    (case objs s fa of
       Some (OFilters kvs) \<Rightarrow>
         Some (\<lambda>k. case map_of kvs k of
                      None \<Rightarrow> None
                    | Some sa \<Rightarrow> (case objs s sa of Some (OSet xs) \<Rightarrow> Some xs | _ \<Rightarrow> None))
     | _ \<Rightarrow> None)"

text \<open>\<^verbatim>\<open>api_params[k] = v\<close>, \<^verbatim>\<open>user_grades.add(n)\<close> and \<^verbatim>\<open>results.append(course)\<close>.\<close>

definition set_item :: "addr \<Rightarrow> string \<Rightarrow> pyval \<Rightarrow> store \<Rightarrow> store" where
  "set_item p k v s =
    (case objs s p of
       Some (OParams ps) \<Rightarrow> put p (OParams (AList.update k v ps)) s
     | _ \<Rightarrow> s)"

definition set_add :: "addr \<Rightarrow> int \<Rightarrow> store \<Rightarrow> store" where
  "set_add u n s =
    (case objs s u of
       Some (OInts xs) \<Rightarrow> put u (OInts (List.insert n xs)) s
     | _ \<Rightarrow> s)"

definition list_append :: "addr \<Rightarrow> addr \<Rightarrow> store \<Rightarrow> store" where
  "list_append r a s =
    (case objs s r of
       Some (OCourses xs) \<Rightarrow> put r (OCourses (xs @ [a])) s
     | _ \<Rightarrow> s)"

subsection \<open>\<^verbatim>\<open>_convert_filters_to_api_params\<close> on the store\<close>

fun s_convert_subjects :: "pyval list \<Rightarrow> addr \<Rightarrow> store \<Rightarrow> store" where
  "s_convert_subjects [] p s = s"
| "s_convert_subjects (subject # subjects) p s =
    (case subject_category subject of
       Some v \<Rightarrow> set_item p ''category_id'' (PInt v) s
     | None \<Rightarrow> s_convert_subjects subjects p s)"

fun s_convert_difficulties :: "pyval list \<Rightarrow> addr \<Rightarrow> store \<Rightarrow> store" where
  "s_convert_difficulties [] p s = s"
| "s_convert_difficulties (d # ds) p s =
    (case difficulty_level d of
       Some v \<Rightarrow> set_item p ''level'' (PStr v) s
     | None \<Rightarrow> s_convert_difficulties ds p s)"

fun s_convert_grades :: "pyval list \<Rightarrow> addr \<Rightarrow> store \<Rightarrow> (exn + unit) \<times> store" where
  "s_convert_grades [] p s = (Inr (), s)"
| "s_convert_grades (g # gs) p s =
    (case normalize_grade g of
       Inl e \<Rightarrow> (Inl e, s)
     | Inr g' \<Rightarrow>
         (case grade_id g' of
            Some v \<Rightarrow> (Inr (), set_item p ''grade_id'' (PInt v) s)
          | None \<Rightarrow> s_convert_grades gs p s))"

text \<open>
  \<^verbatim>\<open>if filters.get(k): ... filters[k]\<close> on the store: the filter bag is read at the
  moment of the test. A store in which \<open>fa\<close> is not a filter bag is an error; in
  Python the name \<^verbatim>\<open>filters\<close> always refers to the dictionary.
\<close>

definition s_selected :: "addr \<Rightarrow> string \<Rightarrow> store \<Rightarrow> exn + pyval list option" where
  "s_selected fa k s =
    (case bag_of s fa of
       None \<Rightarrow> Inl OtherError
     | Some filters \<Rightarrow> Inr (selected filters k))"

definition s_subjects_block :: "addr \<Rightarrow> addr \<Rightarrow> store \<Rightarrow> (exn + unit) \<times> store" where
  "s_subjects_block fa p s =
    (case s_selected fa ''subjects'' s of
       Inl e \<Rightarrow> (Inl e, s)
     | Inr None \<Rightarrow> (Inr (), s)
     | Inr (Some subjects) \<Rightarrow> (Inr (), s_convert_subjects subjects p s))"

definition s_difficulty_block :: "addr \<Rightarrow> addr \<Rightarrow> store \<Rightarrow> (exn + unit) \<times> store" where
  "s_difficulty_block fa p s =
    (case s_selected fa ''difficulty'' s of
       Inl e \<Rightarrow> (Inl e, s)
     | Inr None \<Rightarrow> (Inr (), s)
     | Inr (Some difficulties) \<Rightarrow> (Inr (), s_convert_difficulties difficulties p s))"

definition s_grade_block :: "addr \<Rightarrow> addr \<Rightarrow> store \<Rightarrow> (exn + unit) \<times> store" where
  "s_grade_block fa p s =
    (case s_selected fa ''grade'' s of
       Inl e \<Rightarrow> (Inl e, s)
     | Inr None \<Rightarrow> (Inr (), s)
     | Inr (Some grades) \<Rightarrow> s_convert_grades grades p s)"

text \<open>
  \<^verbatim>\<open>api_params = {}\<close>, the three blocks in their order, \<^verbatim>\<open>return api_params\<close>: the
  result is the address of the new dictionary.
\<close>

definition s_convert_filters_to_api_params :: "addr \<Rightarrow> store \<Rightarrow> (exn + addr) \<times> store" where
  "s_convert_filters_to_api_params fa s =
    (let (p, s0) = alloc (OParams []) s
     in case s_subjects_block fa p s0 of
          (Inl e, s1) \<Rightarrow> (Inl e, s1)
        | (Inr u, s1) \<Rightarrow>
            (case s_difficulty_block fa p s1 of
               (Inl e, s2) \<Rightarrow> (Inl e, s2)
             | (Inr u, s2) \<Rightarrow>
                 (case s_grade_block fa p s2 of
                    (Inl e, s3) \<Rightarrow> (Inl e, s3)
                  | (Inr u, s3) \<Rightarrow> (Inr p, s3))))"

subsection \<open>\<^verbatim>\<open>_filter_courses_locally\<close> on the store\<close>

fun s_user_grades :: "pyval list \<Rightarrow> addr \<Rightarrow> store \<Rightarrow> (exn + unit) \<times> store" where
  "s_user_grades [] u s = (Inr (), s)"
| "s_user_grades (g # gs) u s =
    (case g of
       PStr t \<Rightarrow>
         (if isdigit t
          then (case py_int t of
                  Inl e \<Rightarrow> (Inl e, s)
                | Inr n \<Rightarrow> s_user_grades gs u (set_add u n s))
          else s_user_grades gs u s)
     | PInt n \<Rightarrow> s_user_grades gs u (set_add u n s))"

definition s_grade_match :: "addr \<Rightarrow> course \<Rightarrow> store \<Rightarrow> (exn + bool) \<times> store" where
  "s_grade_match fa c s =
    (case s_selected fa ''grade'' s of
       Inl e \<Rightarrow> (Inl e, s)
     | Inr None \<Rightarrow> (Inr True, s)
     | Inr (Some grades) \<Rightarrow>
         (let cg = (case course_grade c of None \<Rightarrow> [] | Some l \<Rightarrow> l);
              (u, s1) = alloc (OInts []) s
          in case s_user_grades grades u s1 of
               (Inl e, s2) \<Rightarrow> (Inl e, s2)
             | (Inr x, s2) \<Rightarrow>
                 (case objs s2 u of
                    Some (OInts ug) \<Rightarrow> (Inr (list_ex (\<lambda>grade. grade \<in> set cg) ug), s2)
                  | _ \<Rightarrow> (Inl OtherError, s2))))"

text \<open>
  The loop over the candidates, by their addresses; \<open>r\<close> is the address of
  \<^verbatim>\<open>results\<close>. The subject and difficulty tests read the filter bag and the record as
  they are in the store at that moment.
\<close>

fun s_filter_loop :: "addr list \<Rightarrow> addr \<Rightarrow> addr \<Rightarrow> store \<Rightarrow> (exn + unit) \<times> store" where
  "s_filter_loop [] fa r s = (Inr (), s)"
| "s_filter_loop (a # as) fa r s =
    (case (objs s a, bag_of s fa) of
       (Some (OCourse c), Some filters) \<Rightarrow>
         (let sm = subjects_match filters c;
              dm = difficulty_match filters c
          in case s_grade_match fa c s of
               (Inl e, s1) \<Rightarrow> (Inl e, s1)
             | (Inr gm, s1) \<Rightarrow>
                 s_filter_loop as fa r (if sm \<and> dm \<and> gm then list_append r a s1 else s1))
     | _ \<Rightarrow> (Inl OtherError, s))"

text \<open>
  \<^verbatim>\<open>if not courses: return []\<close> returns a new empty list; otherwise \<^verbatim>\<open>results\<close> is
  allocated, filled by the loop and returned.
\<close>

definition s_filter_courses_locally :: "addr \<Rightarrow> addr \<Rightarrow> store \<Rightarrow> (exn + addr) \<times> store" where
  "s_filter_courses_locally ca fa s =
    (case objs s ca of
       Some (OCourses cas) \<Rightarrow>
         (if cas = [] then (let (r, s0) = alloc (OCourses []) s in (Inr r, s0))
          else (let (r, s0) = alloc (OCourses []) s
                in case s_filter_loop cas fa r s0 of
                     (Inl e, s1) \<Rightarrow> (Inl e, s1)
                   | (Inr u, s1) \<Rightarrow> (Inr r, s1)))
     | _ \<Rightarrow> (Inl OtherError, s))"

text \<open>
  What a call may do to the store: allocate, and change objects it has allocated. Every
  object that existed before (below the allocation limit) is as it was.
\<close>

definition unchanged_below :: "addr \<Rightarrow> store \<Rightarrow> store \<Rightarrow> bool" where
  "unchanged_below n s s' \<longleftrightarrow> n \<le> lim s' \<and> (\<forall>a < n. objs s' a = objs s a)"

text \<open>
  The filter bag at \<open>fa\<close> exists in the store, and so does every set it refers to.
\<close>

definition closed_bag :: "store \<Rightarrow> addr \<Rightarrow> bool" where
  "closed_bag s fa \<longleftrightarrow>
    fa < lim s \<and>
    (case objs s fa of
       Some (OFilters kvs) \<Rightarrow> list_all (\<lambda>(k, sa). sa < lim s) kvs
     | _ \<Rightarrow> True)"

text \<open>The candidate list at \<open>ca\<close> exists in the store with all its records.\<close>

definition closed_courses :: "store \<Rightarrow> addr \<Rightarrow> bool" where
  "closed_courses s ca \<longleftrightarrow>
    ca < lim s \<and>
    (case objs s ca of
       Some (OCourses cas) \<Rightarrow> list_all (\<lambda>a. a < lim s) cas
     | _ \<Rightarrow> True)"

text \<open>The records behind a list of addresses; \<open>None\<close> when one is not a record.\<close>

definition courses_at :: "store \<Rightarrow> addr list \<Rightarrow> course list option" where
  "courses_at s as =
    those (map (\<lambda>a. case objs s a of Some (OCourse c) \<Rightarrow> Some c | _ \<Rightarrow> None) as)"

text \<open>
  An example store: the filter bag \<^verbatim>\<open>{"grade": {"9", 10}}\<close> at address 2 with its set
  at address 0, and at address 3 a list of one candidate, the record at address 1.
\<close>

definition example_store :: store where
  "example_store =
    \<lparr>objs = [0 \<mapsto> OSet [PStr [57], PInt 10],
             1 \<mapsto> OCourse \<lparr>course_id = Some 1, course_subjects = None,
                            course_difficulty = None, course_grade = Some [9]\<rparr>,
             2 \<mapsto> OFilters [(''grade'', 0)],
             3 \<mapsto> OCourses [1]],
      lim = 4\<rparr>"

section \<open>The functions on values against the specification's vocabulary\<close>

subsection \<open>The local evaluator\<close>

text \<open>
  The three tests of the code are the three predicates of the specification; the grade
  test raises \<^verbatim>\<open>ValueError\<close> exactly when some grade that \<^verbatim>\<open>isdigit\<close> accepts is
  one that \<^verbatim>\<open>int\<close> refuses.
\<close>

lemma selected_None: "selected f k = None \<longleftrightarrow> dimension f k = []"
  by (simp add: selected_def dimension_def split: option.splits list.splits)

lemma selected_Some: "selected f k = Some xs \<longleftrightarrow> xs \<noteq> [] \<and> dimension f k = xs"
  by (auto simp: selected_def dimension_def split: option.splits list.splits)

lemma py_int_error: "py_int s = Inl e \<Longrightarrow> e = ValueError"
  by (auto simp: py_int_def split: if_splits option.splits)

lemma user_grades_Inr:
  "grades_convert gs \<Longrightarrow>
    \<exists>ug. user_grades gs acc = Inr ug \<and> set ug = set acc \<union> set (normalized_grades gs)"
proof (induction gs arbitrary: acc)
  case Nil
  then show ?case by (simp add: normalized_grades_def)
next
  case (Cons g gs)
  from Cons.prems have rest: "grades_convert gs"
    by (simp add: grades_convert_def)
  show ?case
  proof (cases g)
    case (PInt n)
    from Cons.IH [OF rest, of "List.insert n acc"] PInt show ?thesis
      by (auto simp: normalized_grades_def)
  next
    case (PStr s)
    show ?thesis
    proof (cases "isdigit s")
      case True
      with Cons.prems PStr obtain n where n: "py_int s = Inr n"
        by (auto simp: grades_convert_def split: sum.splits)
      from Cons.IH [OF rest, of "List.insert n acc"] PStr True n show ?thesis
        by (auto simp: normalized_grades_def)
    next
      case False
      from Cons.IH [OF rest, of acc] PStr False show ?thesis
        by (auto simp: normalized_grades_def)
    qed
  qed
qed

lemma user_grades_Inl:
  "\<not> grades_convert gs \<Longrightarrow> user_grades gs acc = Inl ValueError"
proof (induction gs arbitrary: acc)
  case Nil
  then show ?case by (simp add: grades_convert_def)
next
  case (Cons g gs)
  show ?case
  proof (cases "grades_convert [g]")
    case True
    with Cons.prems have "\<not> grades_convert gs"
      by (simp add: grades_convert_def)
    with Cons.IH True show ?thesis
      by (auto simp: grades_convert_def split: pyval.splits sum.splits if_splits)
  next
    case False
    then show ?thesis
      by (auto simp: grades_convert_def split: pyval.splits sum.splits if_splits dest: py_int_error)
  qed
qed

lemma in_strs_iff: "in_strs u xs \<longleftrightarrow> (\<exists>s \<in> set xs. u = PStr s)"
  by (cases u) (auto simp: in_strs_def)

lemma subjects_match_spec: "subjects_match f c = spec_subject_match f c"
proof (cases "selected f ''subjects''")
  case None
  then have "dimension f ''subjects'' = []"
    by (simp add: selected_None)
  with None show ?thesis
    by (simp add: subjects_match_def spec_subject_match_def)
next
  case (Some us)
  then have us: "us \<noteq> []" "dimension f ''subjects'' = us"
    by (simp_all add: selected_Some)
  have "list_ex (\<lambda>u. in_strs u xs) us \<longleftrightarrow> (\<exists>s \<in> set xs. PStr s \<in> set us)" for xs
    by (auto simp: list_ex_iff in_strs_iff)
  with Some us show ?thesis
    by (simp add: subjects_match_def spec_subject_match_def subjects_of_def)
qed

lemma api_to_bot_difficulty_eq:
  "api_to_bot_difficulty = map (\<lambda>(label, level). (level, label)) DIFFICULTY_TO_LEVEL"
  by (simp add: api_to_bot_difficulty_def DIFFICULTY_TO_LEVEL_def BEGINNER_def
      INTERMEDIATE_def ADVANCED_def)

lemma inverse_label_eq:
  "(case map_of api_to_bot_difficulty cd of None \<Rightarrow> cd | Some b \<Rightarrow> b) = inverse_label cd"
  by (simp add: api_to_bot_difficulty_eq inverse_label_def DIFFICULTY_TO_LEVEL_def)

lemma difficulty_match_spec: "difficulty_match f c = spec_difficulty_match f c"
proof (cases "selected f ''difficulty''")
  case None
  then have "dimension f ''difficulty'' = []"
    by (simp add: selected_None)
  with None show ?thesis
    by (simp add: difficulty_match_def spec_difficulty_match_def)
next
  case (Some ds)
  then have "ds \<noteq> []" "dimension f ''difficulty'' = ds"
    by (simp_all add: selected_Some)
  with Some show ?thesis
    by (simp add: difficulty_match_def spec_difficulty_match_def difficulty_of_def
        inverse_label_eq Let_def)
qed

lemma grade_match_spec:
  "grade_match f c =
    (if grades_convert (dimension f ''grade'') then Inr (spec_grade_match f c)
     else Inl ValueError)"
proof (cases "selected f ''grade''")
  case None
  then have "dimension f ''grade'' = []"
    by (simp add: selected_None)
  with None show ?thesis
    by (simp add: grade_match_def spec_grade_match_def grades_convert_def)
next
  case (Some gs)
  then have gs: "gs \<noteq> []" "dimension f ''grade'' = gs"
    by (simp_all add: selected_Some)
  show ?thesis
  proof (cases "grades_convert gs")
    case True
    from user_grades_Inr [OF True, of "[]"] obtain ug
      where ug: "user_grades gs [] = Inr ug" "set ug = set (normalized_grades gs)"
      by auto
    with Some gs True show ?thesis
      by (auto simp: grade_match_def spec_grade_match_def grades_of_def list_ex_iff)
  next
    case False
    with Some gs user_grades_Inl [OF False, of "[]"] show ?thesis
      by (simp add: grade_match_def)
  qed
qed

lemma filter_loop_ok:
  "grades_convert (dimension f ''grade'') \<Longrightarrow>
    filter_loop cs f acc = Inr (acc @ filter (spec_keep f) cs)"
  by (induction cs arbitrary: acc)
     (simp_all add: grade_match_spec subjects_match_spec difficulty_match_spec spec_keep_def)

lemma filter_loop_error:
  "\<not> grades_convert (dimension f ''grade'') \<Longrightarrow> cs \<noteq> [] \<Longrightarrow>
    filter_loop cs f acc = Inl ValueError"
  by (cases cs) (simp_all add: grade_match_spec)

lemma filter_courses_locally_char:
  "filter_courses_locally cs f =
    (if cs \<noteq> [] \<and> \<not> grades_convert (dimension f ''grade'') then Inl ValueError
     else Inr (filter (spec_keep f) cs))"
  by (simp add: filter_courses_locally_def filter_loop_ok filter_loop_error)

subsection \<open>The translator\<close>

lemma convert_subjects_spec:
  "convert_subjects us ps =
    (case first_mapped subject_category us of
       None \<Rightarrow> ps
     | Some v \<Rightarrow> AList.update ''category_id'' (PInt v) ps)"
  by (induction us) (simp_all split: option.splits)

lemma convert_difficulties_spec:
  "convert_difficulties ds ps =
    (case first_mapped difficulty_level ds of
       None \<Rightarrow> ps
     | Some v \<Rightarrow> AList.update ''level'' (PStr v) ps)"
  by (induction ds) (simp_all split: option.splits)

lemma convert_grades_spec:
  "grades_convert gs \<Longrightarrow>
    convert_grades gs ps =
      Inr (case first_mapped (map_of GRADE_TO_ID) (normalized_grades gs) of
             None \<Rightarrow> ps
           | Some v \<Rightarrow> AList.update ''grade_id'' (PInt v) ps)"
proof (induction gs)
  case Nil
  then show ?case by (simp add: normalized_grades_def)
next
  case (Cons g gs)
  from Cons.prems have rest: "grades_convert gs"
    by (simp add: grades_convert_def)
  show ?case
  proof (cases g)
    case (PInt n)
    with Cons.IH [OF rest] show ?thesis
      by (simp add: normalized_grades_def normalize_grade_def grade_id_def split: option.splits)
  next
    case (PStr s)
    show ?thesis
    proof (cases "isdigit s")
      case True
      with Cons.prems PStr obtain n where n: "py_int s = Inr n"
        by (auto simp: grades_convert_def split: sum.splits)
      with Cons.IH [OF rest] PStr True show ?thesis
        by (simp add: normalized_grades_def normalize_grade_def grade_id_def
            split: option.splits)
    next
      case False
      with Cons.IH [OF rest] PStr show ?thesis
        by (simp add: normalized_grades_def normalize_grade_def grade_id_def)
    qed
  qed
qed

lemma selected_case:
  "(case selected f k of None \<Rightarrow> ps | Some xs \<Rightarrow> g xs) =
    (if dimension f k = [] then ps else g (dimension f k))"
  by (auto simp: selected_def dimension_def split: option.splits list.splits)

lemma convert_filters_to_api_params_spec:
  assumes "grades_convert (dimension f ''grade'')"
  shows "convert_filters_to_api_params f = Inr (spec_params f)"
proof -
  let ?s = "first_mapped subject_category (dimension f ''subjects'')"
  let ?d = "first_mapped difficulty_level (dimension f ''difficulty'')"
  let ?g = "first_mapped (map_of GRADE_TO_ID) (normalized_grades (dimension f ''grade''))"
  have s: "(case selected f ''subjects'' of None \<Rightarrow> [] | Some us \<Rightarrow> convert_subjects us []) =
      (case ?s of None \<Rightarrow> [] | Some v \<Rightarrow> [(''category_id'', PInt v)])"
    by (simp add: selected_case convert_subjects_spec split: option.splits)
  have d: "(case selected f ''difficulty'' of None \<Rightarrow> ps | Some ds \<Rightarrow> convert_difficulties ds ps) =
      (case ?d of None \<Rightarrow> ps | Some v \<Rightarrow> AList.update ''level'' (PStr v) ps)" for ps
    by (simp add: selected_case convert_difficulties_spec split: option.splits)
  have g: "(case selected f ''grade'' of None \<Rightarrow> Inr ps | Some gs \<Rightarrow> convert_grades gs ps) =
      Inr (case ?g of None \<Rightarrow> ps | Some v \<Rightarrow> AList.update ''grade_id'' (PInt v) ps)" for ps
    using assms
    by (simp add: selected_case convert_grades_spec normalized_grades_def
        split: option.splits)
  show ?thesis
    unfolding convert_filters_to_api_params_def Let_def s d g
    by (simp add: spec_params_def split: option.splits)
qed

lemma spec_params_keys:
  "distinct (map fst (spec_params f)) \<and>
   set (map fst (spec_params f)) \<subseteq> {''category_id'', ''level'', ''grade_id''}"
  by (simp add: spec_params_def split: option.splits)

subsection \<open>Particular strings\<close>

text \<open>
  The strings \<^verbatim>\<open>"9"\<close>, \<^verbatim>\<open>"abc"\<close>, \<^verbatim>\<open>"-5"\<close> and the string of the one character
  U+00B2, the superscript two: a digit for \<^verbatim>\<open>isdigit\<close>, not a decimal for \<^verbatim>\<open>int\<close>.
\<close>

lemma decimal_value_nine: "decimal_value 57 = Some 9"
  by (simp add: decimal_value_def decimal_zeros_def)

lemma decimal_value_superscript_two: "decimal_value 178 = None"
  by (simp add: decimal_value_def decimal_zeros_def)

lemma isdigit_nine: "isdigit [57]"
  by (simp add: isdigit_def is_digit_char_def decimal_value_nine)

lemma py_int_nine: "py_int [57] = Inr 9"
  by (simp add: py_int_def max_str_digits_def decimal_value_nine)

lemma isdigit_superscript_two: "isdigit [178]"
  by (simp add: isdigit_def is_digit_char_def other_digits_def)

lemma py_int_superscript_two: "py_int [178] = Inl ValueError"
  by (simp add: py_int_def max_str_digits_def decimal_value_superscript_two)

lemma not_isdigit_abc: "\<not> isdigit [97, 98, 99]"
  by (simp add: isdigit_def is_digit_char_def decimal_value_def decimal_zeros_def
      other_digits_def)

lemma not_isdigit_minus_five: "\<not> isdigit [45, 53]"
  by (simp add: isdigit_def is_digit_char_def decimal_value_def decimal_zeros_def
      other_digits_def)

lemma grades_convert_nine: "grades_convert [PStr [57]]"
  by (simp add: grades_convert_def isdigit_nine py_int_nine)

lemma not_grades_convert_superscript_two: "\<not> grades_convert [PStr [178]]"
  by (simp add: grades_convert_def isdigit_superscript_two py_int_superscript_two)

subsection \<open>The service\<close>

lemma filter_courses_locally_not_ImportError:
  "filter_courses_locally cs f \<noteq> Inl ImportError"
  by (simp add: filter_courses_locally_char)

lemma get_fallback_courses_eq:
  "get_fallback_courses mock f =
    (case mock of None \<Rightarrow> Inr [] | Some COURSES \<Rightarrow> filter_courses_locally COURSES f)"
  by (simp add: get_fallback_courses_def filter_courses_locally_char split: option.splits)

lemma convert_superscript_two:
  "convert_filters_to_api_params [''grade'' \<mapsto> [PStr [178]]] = Inl ValueError"
  by (simp add: convert_filters_to_api_params_def selected_def normalize_grade_def
      isdigit_superscript_two py_int_superscript_two)


lemma spec_keep_grade_nine:
  "spec_keep [''grade'' \<mapsto> [PStr [57]]] = (\<lambda>c. 9 \<in> set (grades_of c))"
  by (auto simp: spec_keep_def spec_subject_match_def spec_difficulty_match_def
      spec_grade_match_def dimension_def normalized_grades_def isdigit_nine py_int_nine)

lemma find_first_spec:
  "case find P xs of
     None \<Rightarrow> \<forall>c \<in> set xs. \<not> P c
   | Some c \<Rightarrow> \<exists>i < length xs. c = xs ! i \<and> P c \<and> (\<forall>j < i. \<not> P (xs ! j))"
  by (auto simp: find_None_iff find_Some_iff split: option.splits)

lemma filter_courses_returns:
  assumes "grades_convert (dimension f ''grade'') \<or> mock = None \<or> mock = Some []"
  shows "\<exists>res. filter_courses client mock f = Inr res"
  using assms
  by (auto simp: filter_courses_def get_fallback_courses_eq filter_courses_locally_char
      split: option.splits sum.splits)

lemma filter_courses_fallback_on_error:
  "fetch_and_filter api f = Inl e \<Longrightarrow>
    filter_courses (Some api) mock f = get_fallback_courses mock f"
  by (simp add: filter_courses_def)

lemma degraded_mode_delegates:
  "filter_courses None mock f =
     (case mock of None \<Rightarrow> Inr [] | Some COURSES \<Rightarrow> filter_courses_locally COURSES f)"
  by (simp add: filter_courses_def get_fallback_courses_eq)

lemma degraded_mode_returns:
  "grades_convert (dimension f ''grade'') \<Longrightarrow>
    filter_courses None mock f =
      Inr (case mock of None \<Rightarrow> [] | Some COURSES \<Rightarrow> filter (spec_keep f) COURSES)"
  by (simp add: degraded_mode_delegates filter_courses_locally_char split: option.splits)

lemma degraded_mode_grade_nine:
  "filter_courses None mock [''grade'' \<mapsto> [PStr [57]]] =
     Inr (case mock of None \<Rightarrow> [] | Some COURSES \<Rightarrow> filter (\<lambda>c. 9 \<in> set (grades_of c)) COURSES)"
  using degraded_mode_returns [of "[''grade'' \<mapsto> [PStr [57]]]" mock]
  by (simp add: spec_keep_grade_nine dimension_def grades_convert_nine split: option.splits)

lemma degraded_mode_grade_nine_example:
  "filter_courses None
     (Some [\<lparr>course_id = Some 1, course_subjects = None, course_difficulty = None,
             course_grade = Some [9, 10]\<rparr>,
            \<lparr>course_id = Some 2, course_subjects = None, course_difficulty = None,
             course_grade = Some [7]\<rparr>,
            \<lparr>course_id = Some 3, course_subjects = None, course_difficulty = None,
             course_grade = None\<rparr>])
     [''grade'' \<mapsto> [PStr [57]]] =
   Inr [\<lparr>course_id = Some 1, course_subjects = None, course_difficulty = None,
         course_grade = Some [9, 10]\<rparr>]"
  by (simp add: degraded_mode_grade_nine grades_of_def)

subsection \<open>Empty dimensions and missing fields\<close>

lemma dimension_empty_iff: "dimension f k = [] \<longleftrightarrow> f k = None \<or> f k = Some []"
  by (simp add: dimension_def split: option.splits)

lemma inverse_label_empty: "inverse_label [] = []"
  by (simp add: inverse_label_def DIFFICULTY_TO_LEVEL_def BEGINNER_def INTERMEDIATE_def
      ADVANCED_def)

lemma filter_courses_locally_kept:
  "filter_courses_locally cs f = Inr res \<Longrightarrow> c \<in> set res \<Longrightarrow> spec_keep f c"
  by (auto simp: filter_courses_locally_char split: if_splits)

subsection \<open>Grades as strings and as integers\<close>



lemma normalized_grades_Nil: "normalized_grades [] = []"
  by (simp add: normalized_grades_def)

lemma normalized_grades_Cons:
  "normalized_grades (g # gs) =
    (case g of
       PInt n \<Rightarrow> [n]
     | PStr s \<Rightarrow> (if isdigit s then (case py_int s of Inl e \<Rightarrow> [] | Inr n \<Rightarrow> [n]) else [])) @
    normalized_grades gs"
  by (simp add: normalized_grades_def)

lemma in_normalized_grades:
  "n \<in> set (normalized_grades gs) \<longleftrightarrow>
    PInt n \<in> set gs \<or> (\<exists>s. PStr s \<in> set gs \<and> isdigit s \<and> py_int s = Inr n)"
proof (induction gs)
  case Nil
  show ?case by (simp add: normalized_grades_Nil)
next
  case (Cons g gs)
  show ?case
  proof (cases g)
    case (PInt m)
    then show ?thesis
      using Cons by (auto simp: normalized_grades_Cons)
  next
    case (PStr t)
    show ?thesis
    proof (cases "isdigit t")
      case False
      then show ?thesis
        using Cons PStr by (auto simp: normalized_grades_Cons)
    next
      case True
      show ?thesis
      proof (cases "py_int t")
        case (Inl e)
        then show ?thesis
          using Cons PStr True by (auto simp: normalized_grades_Cons)
      next
        case (Inr m)
        then show ?thesis
          using Cons PStr True by (auto simp: normalized_grades_Cons)
      qed
    qed
  qed
qed

lemma set_normalized_grades:
  "set (normalized_grades gs) =
    {n. PInt n \<in> set gs \<or> (\<exists>s. PStr s \<in> set gs \<and> isdigit s \<and> py_int s = Inr n)}"
  using in_normalized_grades by blast






section \<open>The functions on the store\<close>

subsection \<open>What a call leaves unchanged\<close>

lemma unchanged_below_refl: "n \<le> lim s \<Longrightarrow> unchanged_below n s s"
  by (simp add: unchanged_below_def)

lemma unchanged_below_trans:
  "unchanged_below n s s1 \<Longrightarrow> unchanged_below n s1 s2 \<Longrightarrow> unchanged_below n s s2"
  by (simp add: unchanged_below_def)

lemma unchanged_below_lim: "unchanged_below n s s' \<Longrightarrow> n \<le> lim s'"
  by (simp add: unchanged_below_def)

lemma alloc_unchanged:
  "n \<le> lim s \<Longrightarrow> unchanged_below n s (snd (alloc ob s)) \<and> n \<le> fst (alloc ob s)"
  by (simp add: alloc_def unchanged_below_def)

lemma put_unchanged: "n \<le> a \<Longrightarrow> n \<le> lim s \<Longrightarrow> unchanged_below n s (put a ob s)"
  by (simp add: put_def unchanged_below_def)

lemma set_item_unchanged:
  "n \<le> p \<Longrightarrow> n \<le> lim s \<Longrightarrow> unchanged_below n s (set_item p k v s)"
  by (simp add: set_item_def put_unchanged unchanged_below_refl split: option.splits obj.splits)

lemma set_add_unchanged:
  "n \<le> u \<Longrightarrow> n \<le> lim s \<Longrightarrow> unchanged_below n s (set_add u m s)"
  by (simp add: set_add_def put_unchanged unchanged_below_refl split: option.splits obj.splits)

lemma list_append_unchanged:
  "n \<le> r \<Longrightarrow> n \<le> lim s \<Longrightarrow> unchanged_below n s (list_append r a s)"
  by (simp add: list_append_def put_unchanged unchanged_below_refl
      split: option.splits obj.splits)

lemma s_convert_subjects_unchanged:
  "n \<le> p \<Longrightarrow> n \<le> lim s \<Longrightarrow> unchanged_below n s (s_convert_subjects us p s)"
  by (induction us)
     (simp_all add: unchanged_below_refl set_item_unchanged split: option.splits)

lemma s_convert_difficulties_unchanged:
  "n \<le> p \<Longrightarrow> n \<le> lim s \<Longrightarrow> unchanged_below n s (s_convert_difficulties ds p s)"
  by (induction ds)
     (simp_all add: unchanged_below_refl set_item_unchanged split: option.splits)

lemma s_convert_grades_unchanged:
  "n \<le> p \<Longrightarrow> n \<le> lim s \<Longrightarrow> unchanged_below n s (snd (s_convert_grades gs p s))"
  by (induction gs)
     (simp_all add: unchanged_below_refl set_item_unchanged split: option.splits sum.splits)

lemma s_subjects_block_unchanged:
  "n \<le> p \<Longrightarrow> n \<le> lim s \<Longrightarrow> unchanged_below n s (snd (s_subjects_block fa p s))"
  by (simp add: s_subjects_block_def unchanged_below_refl s_convert_subjects_unchanged
      split: option.splits sum.splits)

lemma s_difficulty_block_unchanged:
  "n \<le> p \<Longrightarrow> n \<le> lim s \<Longrightarrow> unchanged_below n s (snd (s_difficulty_block fa p s))"
  by (simp add: s_difficulty_block_def unchanged_below_refl s_convert_difficulties_unchanged
      split: option.splits sum.splits)

lemma s_grade_block_unchanged:
  "n \<le> p \<Longrightarrow> n \<le> lim s \<Longrightarrow> unchanged_below n s (snd (s_grade_block fa p s))"
  by (simp add: s_grade_block_def unchanged_below_refl s_convert_grades_unchanged
      split: option.splits sum.splits)

lemma s_convert_filters_unchanged:
  "unchanged_below (lim s) s (snd (s_convert_filters_to_api_params fa s))"
proof -
  obtain p s0 where a: "alloc (OParams []) s = (p, s0)"
    by (cases "alloc (OParams []) s")
  obtain r1 s1 where b1: "s_subjects_block fa p s0 = (r1, s1)"
    by (cases "s_subjects_block fa p s0")
  obtain r2 s2 where b2: "s_difficulty_block fa p s1 = (r2, s2)"
    by (cases "s_difficulty_block fa p s1")
  obtain r3 s3 where b3: "s_grade_block fa p s2 = (r3, s3)"
    by (cases "s_grade_block fa p s2")
  let ?n = "lim s"
  from alloc_unchanged [of ?n s "OParams []"] a
  have u0: "unchanged_below ?n s s0" and p: "?n \<le> p" by simp_all
  from s_subjects_block_unchanged [OF p unchanged_below_lim [OF u0], of fa] b1
  have "unchanged_below ?n s0 s1" by simp
  with u0 have u1: "unchanged_below ?n s s1" by (rule unchanged_below_trans)
  from s_difficulty_block_unchanged [OF p unchanged_below_lim [OF u1], of fa] b2
  have "unchanged_below ?n s1 s2" by simp
  with u1 have u2: "unchanged_below ?n s s2" by (rule unchanged_below_trans)
  from s_grade_block_unchanged [OF p unchanged_below_lim [OF u2], of fa] b3
  have "unchanged_below ?n s2 s3" by simp
  with u2 have u3: "unchanged_below ?n s s3" by (rule unchanged_below_trans)
  from a b1 b2 b3 u1 u2 u3 show ?thesis
    by (simp add: s_convert_filters_to_api_params_def split: sum.splits)
qed

lemma s_user_grades_unchanged:
  "s_user_grades gs u s = (x, s') \<Longrightarrow> n \<le> u \<Longrightarrow> n \<le> lim s \<Longrightarrow> unchanged_below n s s'"
proof (induction gs arbitrary: s)
  case Nil
  then show ?case by (simp add: unchanged_below_refl)
next
  case (Cons g gs)
  from Cons.prems(1) consider "s' = s"
    | m where "s_user_grades gs u (set_add u m s) = (x, s')"
    | "s_user_grades gs u s = (x, s')"
    by (auto split: pyval.splits sum.splits if_splits)
  then show ?case
  proof cases
    case 1
    with Cons.prems show ?thesis by (simp add: unchanged_below_refl)
  next
    case 2
    from Cons.prems have a: "unchanged_below n s (set_add u m s)"
      by (simp add: set_add_unchanged)
    from Cons.IH [OF 2 Cons.prems(2) unchanged_below_lim [OF a]] a
    show ?thesis by (rule unchanged_below_trans [rotated])
  next
    case 3
    then show ?thesis using Cons.prems(2,3) by (rule Cons.IH)
  qed
qed

lemma s_grade_match_cases:
  assumes "s_grade_match fa c s = (x, s')"
  shows "s' = s \<or> (\<exists>gs y. s_user_grades gs (lim s) (snd (alloc (OInts []) s)) = (y, s'))"
  using assms
  by (auto simp: s_grade_match_def alloc_def Let_def
      split: sum.splits option.splits prod.splits obj.splits)

lemma s_grade_match_unchanged:
  assumes "s_grade_match fa c s = (x, s')" and "n \<le> lim s"
  shows "unchanged_below n s s'"
proof -
  from s_grade_match_cases [OF assms(1)] consider "s' = s"
    | gs y where "s_user_grades gs (lim s) (snd (alloc (OInts []) s)) = (y, s')"
    by blast
  then show ?thesis
  proof cases
    case 1
    with assms(2) show ?thesis by (simp add: unchanged_below_refl)
  next
    case 2
    from alloc_unchanged [OF assms(2), of "OInts []"]
    have a: "unchanged_below n s (snd (alloc (OInts []) s))" and u: "n \<le> lim s"
      by (simp_all add: alloc_def)
    from s_user_grades_unchanged [OF 2 u unchanged_below_lim [OF a]] a
    show ?thesis by (rule unchanged_below_trans [rotated])
  qed
qed

lemma s_filter_loop_cases:
  assumes "s_filter_loop (a # as) fa r s = (x, s')"
  shows "s' = s \<or>
    (\<exists>c y s1. s_grade_match fa c s = (y, s1) \<and>
       (s' = s1 \<or> s_filter_loop as fa r s1 = (x, s') \<or>
        s_filter_loop as fa r (list_append r a s1) = (x, s')))"
  using assms
  by (auto simp: Let_def split: sum.splits option.splits prod.splits obj.splits if_splits)

lemma s_filter_loop_unchanged:
  "s_filter_loop as fa r s = (x, s') \<Longrightarrow> n \<le> r \<Longrightarrow> n \<le> lim s \<Longrightarrow> unchanged_below n s s'"
proof (induction as arbitrary: s)
  case Nil
  then show ?case by (simp add: unchanged_below_refl)
next
  case (Cons a as)
  from s_filter_loop_cases [OF Cons.prems(1)] consider "s' = s"
    | c y s1 where "s_grade_match fa c s = (y, s1)" "s' = s1"
    | c y s1 where "s_grade_match fa c s = (y, s1)" "s_filter_loop as fa r s1 = (x, s')"
    | c y s1 where "s_grade_match fa c s = (y, s1)"
        "s_filter_loop as fa r (list_append r a s1) = (x, s')"
    by blast
  then show ?case
  proof cases
    case 1
    with Cons.prems show ?thesis by (simp add: unchanged_below_refl)
  next
    case 2
    with Cons.prems(3) show ?thesis by (simp add: s_grade_match_unchanged)
  next
    case 3
    from 3(1) Cons.prems(3) have g: "unchanged_below n s s1"
      by (rule s_grade_match_unchanged)
    from Cons.IH [OF 3(2) Cons.prems(2) unchanged_below_lim [OF g]] g
    show ?thesis by (rule unchanged_below_trans [rotated])
  next
    case 4
    from 4(1) Cons.prems(3) have g: "unchanged_below n s s1"
      by (rule s_grade_match_unchanged)
    from Cons.prems(2) unchanged_below_lim [OF g]
    have "unchanged_below n s1 (list_append r a s1)"
      by (rule list_append_unchanged)
    with g have l: "unchanged_below n s (list_append r a s1)"
      by (rule unchanged_below_trans)
    from Cons.IH [OF 4(2) Cons.prems(2) unchanged_below_lim [OF l]] l
    show ?thesis by (rule unchanged_below_trans [rotated])
  qed
qed

lemma s_filter_courses_locally_cases:
  assumes "s_filter_courses_locally ca fa s = (x, s')"
  shows "s' = s \<or> s' = snd (alloc (OCourses []) s) \<or>
    (\<exists>cas y. s_filter_loop cas fa (lim s) (snd (alloc (OCourses []) s)) = (y, s'))"
  using assms
  by (auto simp: s_filter_courses_locally_def alloc_def Let_def
      split: sum.splits option.splits prod.splits obj.splits if_splits)

lemma s_filter_courses_locally_unchanged:
  assumes "s_filter_courses_locally ca fa s = (x, s')"
  shows "unchanged_below (lim s) s s'"
proof -
  from alloc_unchanged [of "lim s" s "OCourses []"]
  have a: "unchanged_below (lim s) s (snd (alloc (OCourses []) s))"
    by simp
  from s_filter_courses_locally_cases [OF assms] consider "s' = s"
    | "s' = snd (alloc (OCourses []) s)"
    | cas y where "s_filter_loop cas fa (lim s) (snd (alloc (OCourses []) s)) = (y, s')"
    by blast
  then show ?thesis
  proof cases
    case 1
    then show ?thesis by (simp add: unchanged_below_refl)
  next
    case 2
    with a show ?thesis by simp
  next
    case 3
    from s_filter_loop_unchanged [OF 3 order_refl unchanged_below_lim [OF a]] a
    show ?thesis by (rule unchanged_below_trans [rotated])
  qed
qed

lemma bag_of_unchanged:
  assumes "closed_bag s fa" and "unchanged_below (lim s) s s'"
  shows "bag_of s' fa = bag_of s fa"
proof -
  from assms have fa: "objs s' fa = objs s fa"
    by (simp add: closed_bag_def unchanged_below_def)
  show ?thesis
  proof (cases "objs s fa")
    case None
    with fa show ?thesis by (simp add: bag_of_def)
  next
    case (Some ob)
    show ?thesis
    proof (cases ob)
      case (OFilters kvs)
      have "objs s' sa = objs s sa" if "map_of kvs k = Some sa" for k sa
      proof -
        from that have "(k, sa) \<in> set kvs" by (rule map_of_SomeD)
        with assms(1) Some OFilters have "sa < lim s"
          by (auto simp: closed_bag_def list_all_iff)
        with assms(2) show ?thesis by (simp add: unchanged_below_def)
      qed
      then have "(case map_of kvs k of None \<Rightarrow> None
                  | Some sa \<Rightarrow> (case objs s' sa of Some (OSet xs) \<Rightarrow> Some xs | _ \<Rightarrow> None)) =
                 (case map_of kvs k of None \<Rightarrow> None
                  | Some sa \<Rightarrow> (case objs s sa of Some (OSet xs) \<Rightarrow> Some xs | _ \<Rightarrow> None))" for k
        by (cases "map_of kvs k") simp_all
      with fa Some OFilters show ?thesis
        by (simp add: bag_of_def)
    qed (use fa Some in \<open>simp_all add: bag_of_def\<close>)
  qed
qed

lemma example_store_evaluate:
  "fst (s_filter_courses_locally 3 2 example_store) = Inr 4 \<and>
   objs (snd (s_filter_courses_locally 3 2 example_store)) 4 = Some (OCourses [1])"
  by (simp add: example_store_def s_filter_courses_locally_def alloc_def s_grade_match_def
      s_selected_def bag_of_def selected_def set_add_def put_def list_append_def
      subjects_match_def difficulty_match_def isdigit_nine py_int_nine Let_def)

lemma example_store_translate:
  "fst (s_convert_filters_to_api_params 2 example_store) = Inr 4 \<and>
   objs (snd (s_convert_filters_to_api_params 2 example_store)) 4 =
     Some (OParams [(''grade_id'', PInt 3)])"
  by (simp add: example_store_def s_convert_filters_to_api_params_def alloc_def
      s_subjects_block_def s_difficulty_block_def s_grade_block_def
      s_selected_def bag_of_def selected_def set_item_def put_def normalize_grade_def
      grade_id_def GRADE_TO_ID_def isdigit_nine py_int_nine Let_def)

subsection \<open>The same results as the functions on values\<close>

text \<open>
  On a store that holds the filter bag and the candidates, the functions on the store
  return what the functions on values return for the values read from the store.
\<close>

lemma s_convert_subjects_params:
  "objs s p = Some (OParams ps) \<Longrightarrow>
    objs (s_convert_subjects us p s) p = Some (OParams (convert_subjects us ps))"
  by (induction us) (simp_all add: set_item_def put_def split: option.splits)

lemma s_convert_difficulties_params:
  "objs s p = Some (OParams ps) \<Longrightarrow>
    objs (s_convert_difficulties ds p s) p = Some (OParams (convert_difficulties ds ps))"
  by (induction ds) (simp_all add: set_item_def put_def split: option.splits)

lemma s_convert_grades_params:
  "objs s p = Some (OParams ps) \<Longrightarrow> s_convert_grades gs p s = (x, s') \<Longrightarrow>
    (case convert_grades gs ps of
       Inl e \<Rightarrow> x = Inl e
     | Inr ps' \<Rightarrow> x = Inr () \<and> objs s' p = Some (OParams ps'))"
  by (induction gs)
     (auto simp: set_item_def put_def split: option.splits sum.splits)

lemma s_convert_filters_agrees:
  assumes "closed_bag s fa" and "bag_of s fa = Some f"
    and "s_convert_filters_to_api_params fa s = (x, s')"
  shows "case convert_filters_to_api_params f of
           Inl e \<Rightarrow> x = Inl e
         | Inr ps \<Rightarrow> x = Inr (lim s) \<and> objs s' (lim s) = Some (OParams ps)"
proof -
  let ?n = "lim s"
  define s0 where "s0 = snd (alloc (OParams []) s)"
  have a: "alloc (OParams []) s = (?n, s0)"
    by (simp add: s0_def alloc_def)
  from alloc_unchanged [of ?n s "OParams []"] a
  have u0: "unchanged_below ?n s s0" by simp
  have p0: "objs s0 ?n = Some (OParams [])"
    by (simp add: s0_def alloc_def)
  have bag: "bag_of t fa = Some f" if "unchanged_below ?n s t" for t
    using bag_of_unchanged [OF assms(1) that] assms(2) by simp
  define ps1 where "ps1 = (case selected f ''subjects'' of None \<Rightarrow> []
    | Some us \<Rightarrow> convert_subjects us [])"
  define s1 where "s1 = snd (s_subjects_block fa ?n s0)"
  have b1: "s_subjects_block fa ?n s0 = (Inr (), s1)"
    by (simp add: s1_def s_subjects_block_def s_selected_def bag [OF u0] split: option.splits)
  from s_subjects_block_unchanged [OF order_refl unchanged_below_lim [OF u0], of fa]
  have "unchanged_below ?n s0 s1" by (simp add: s1_def)
  with u0 have u1: "unchanged_below ?n s s1" by (rule unchanged_below_trans)
  have p1: "objs s1 ?n = Some (OParams ps1)"
    using p0
    by (simp add: s1_def ps1_def s_subjects_block_def s_selected_def bag [OF u0]
        s_convert_subjects_params split: option.splits)
  define ps2 where "ps2 = (case selected f ''difficulty'' of None \<Rightarrow> ps1
    | Some ds \<Rightarrow> convert_difficulties ds ps1)"
  define s2 where "s2 = snd (s_difficulty_block fa ?n s1)"
  have b2: "s_difficulty_block fa ?n s1 = (Inr (), s2)"
    by (simp add: s2_def s_difficulty_block_def s_selected_def bag [OF u1] split: option.splits)
  from s_difficulty_block_unchanged [OF order_refl unchanged_below_lim [OF u1], of fa]
  have "unchanged_below ?n s1 s2" by (simp add: s2_def)
  with u1 have u2: "unchanged_below ?n s s2" by (rule unchanged_below_trans)
  have p2: "objs s2 ?n = Some (OParams ps2)"
    using p1
    by (simp add: s2_def ps2_def s_difficulty_block_def s_selected_def bag [OF u1]
        s_convert_difficulties_params split: option.splits)
  obtain x3 s3 where b3: "s_grade_block fa ?n s2 = (x3, s3)"
    by (cases "s_grade_block fa ?n s2")
  have g: "case (case selected f ''grade'' of None \<Rightarrow> Inr ps2
                 | Some gs \<Rightarrow> convert_grades gs ps2) of
             Inl e \<Rightarrow> x3 = Inl e
           | Inr ps \<Rightarrow> x3 = Inr () \<and> objs s3 ?n = Some (OParams ps)"
  proof (cases "selected f ''grade''")
    case None
    with b3 p2 show ?thesis
      by (simp add: s_grade_block_def s_selected_def bag [OF u2])
  next
    case (Some gs)
    with b3 have "s_convert_grades gs ?n s2 = (x3, s3)"
      by (simp add: s_grade_block_def s_selected_def bag [OF u2])
    from s_convert_grades_params [OF p2 this] Some show ?thesis by simp
  qed
  have c: "convert_filters_to_api_params f =
      (case selected f ''grade'' of None \<Rightarrow> Inr ps2 | Some gs \<Rightarrow> convert_grades gs ps2)"
    unfolding convert_filters_to_api_params_def ps1_def ps2_def Let_def by (rule refl)
  from assms(3) a b1 b2 b3 have "x = (case x3 of Inl e \<Rightarrow> Inl e | Inr u \<Rightarrow> Inr ?n)" "s' = s3"
    by (simp_all add: s_convert_filters_to_api_params_def split: sum.splits)
  with g show ?thesis
    unfolding c by (auto split: sum.splits)
qed

lemma s_user_grades_agrees:
  "objs s u = Some (OInts acc) \<Longrightarrow> s_user_grades gs u s = (x, s') \<Longrightarrow>
    (case user_grades gs acc of
       Inl e \<Rightarrow> x = Inl e
     | Inr ug \<Rightarrow> x = Inr () \<and> objs s' u = Some (OInts ug))"
proof (induction gs arbitrary: s acc)
  case Nil
  then show ?case by simp
next
  case (Cons g gs)
  have add: "objs (set_add u n s) u = Some (OInts (List.insert n acc))" for n
    using Cons.prems(1) by (simp add: set_add_def put_def)
  show ?case
  proof (cases g)
    case (PInt n)
    with Cons.prems(2) have "s_user_grades gs u (set_add u n s) = (x, s')" by simp
    from Cons.IH [OF add this] PInt show ?thesis by simp
  next
    case (PStr t)
    show ?thesis
    proof (cases "isdigit t")
      case False
      with Cons.prems(2) PStr have "s_user_grades gs u s = (x, s')" by simp
      from Cons.IH [OF Cons.prems(1) this] PStr False show ?thesis by simp
    next
      case True
      show ?thesis
      proof (cases "py_int t")
        case (Inl e)
        with Cons.prems(2) PStr True show ?thesis by simp
      next
        case (Inr n)
        with Cons.prems(2) PStr True have "s_user_grades gs u (set_add u n s) = (x, s')"
          by simp
        from Cons.IH [OF add this] PStr True Inr show ?thesis by simp
      qed
    qed
  qed
qed

lemma s_grade_match_agrees:
  assumes "bag_of s fa = Some f" and "s_grade_match fa c s = (x, s')"
  shows "x = grade_match f c"
proof (cases "selected f ''grade''")
  case None
  with assms show ?thesis
    by (simp add: s_grade_match_def s_selected_def grade_match_def)
next
  case (Some gs)
  let ?s1 = "snd (alloc (OInts []) s)"
  obtain y s2 where u: "s_user_grades gs (lim s) ?s1 = (y, s2)"
    by (cases "s_user_grades gs (lim s) ?s1")
  have "objs ?s1 (lim s) = Some (OInts [])"
    by (simp add: alloc_def)
  from s_user_grades_agrees [OF this u]
  have a: "case user_grades gs [] of
             Inl e \<Rightarrow> y = Inl e
           | Inr ug \<Rightarrow> y = Inr () \<and> objs s2 (lim s) = Some (OInts ug)" .
  from assms Some u a show ?thesis
    by (auto simp: s_grade_match_def s_selected_def grade_match_def alloc_def Let_def
        split: sum.splits)
qed

lemma s_grade_match_store:
  assumes "s_grade_match fa c s = (x, s')"
  shows "unchanged_below (lim s) s s' \<and> lim s \<le> lim s'"
  using s_grade_match_unchanged [OF assms order_refl]
  by (simp add: unchanged_below_def)

lemma s_filter_loop_agrees:
  assumes "closed_bag s0 fa" and "bag_of s0 fa = Some f" and "lim s0 \<le> r"
  shows "unchanged_below (lim s0) s0 s \<Longrightarrow> r < lim s \<Longrightarrow>
    list_all (\<lambda>a. a < lim s0) as \<Longrightarrow>
    map (objs s0) as = map (\<lambda>c. Some (OCourse c)) cs \<Longrightarrow>
    objs s r = Some (OCourses ras) \<Longrightarrow>
    map (objs s0) ras = map (\<lambda>c. Some (OCourse c)) acc \<Longrightarrow>
    s_filter_loop as fa r s = (x, s') \<Longrightarrow>
    (case filter_loop cs f acc of
       Inl e \<Rightarrow> x = Inl e
     | Inr res \<Rightarrow>
         x = Inr () \<and>
         (\<exists>rf. objs s' r = Some (OCourses rf) \<and>
               map (objs s0) rf = map (\<lambda>c. Some (OCourse c)) res))"
proof (induction as arbitrary: cs s ras acc)
  case Nil
  then show ?case by simp
next
  case (Cons a as)
  from Cons.prems(4) obtain c cs' where cs: "cs = c # cs'"
    and c0: "objs s0 a = Some (OCourse c)"
    and rest: "map (objs s0) as = map (\<lambda>c. Some (OCourse c)) cs'"
    by (cases cs) auto
  from Cons.prems(3) have a: "a < lim s0" and as: "list_all (\<lambda>a. a < lim s0) as"
    by simp_all
  from Cons.prems(1) a c0 have c: "objs s a = Some (OCourse c)"
    by (simp add: unchanged_below_def)
  from bag_of_unchanged [OF assms(1) Cons.prems(1)] assms(2)
  have bag: "bag_of s fa = Some f" by simp
  obtain y s1 where g: "s_grade_match fa c s = (y, s1)"
    by (cases "s_grade_match fa c s")
  from s_grade_match_agrees [OF bag g] have y: "y = grade_match f c" .
  from s_grade_match_store [OF g]
  have f1: "unchanged_below (lim s) s s1" and l1: "lim s \<le> lim s1" by simp_all
  from Cons.prems(2,5) f1 have r1: "objs s1 r = Some (OCourses ras)"
    by (simp add: unchanged_below_def)
  from Cons.prems(1) f1 have u1: "unchanged_below (lim s0) s0 s1"
    by (auto simp: unchanged_below_def)
  show ?case
  proof (cases "grade_match f c")
    case (Inl e)
    with Cons.prems(7) c bag g y cs show ?thesis by simp
  next
    case (Inr gm)
    let ?keep = "subjects_match f c \<and> difficulty_match f c \<and> gm"
    let ?s2 = "if ?keep then list_append r a s1 else s1"
    from Cons.prems(7) c bag g y Inr
    have loop: "s_filter_loop as fa r ?s2 = (x, s')"
      by (simp add: Let_def)
    have u2: "unchanged_below (lim s0) s0 ?s2"
      using u1 list_append_unchanged [OF assms(3) unchanged_below_lim [OF u1], of a]
      by (auto intro: unchanged_below_trans)
    have l2: "r < lim ?s2"
      using Cons.prems(2) l1 r1 by (simp add: list_append_def put_def)
    have r2: "objs ?s2 r = Some (OCourses (if ?keep then ras @ [a] else ras))"
      using r1 by (simp add: list_append_def put_def)
    have acc2: "map (objs s0) (if ?keep then ras @ [a] else ras) =
        map (\<lambda>c. Some (OCourse c)) (if ?keep then acc @ [c] else acc)"
      using Cons.prems(6) c0 by simp
    from Cons.IH [OF u2 l2 as rest r2 acc2 loop] cs Inr show ?thesis
      by (simp add: Let_def)
  qed
qed

lemma s_filter_courses_locally_agrees:
  assumes "closed_bag s fa" and "closed_courses s ca" and "bag_of s fa = Some f"
    and "objs s ca = Some (OCourses cas)"
    and "map (objs s) cas = map (\<lambda>c. Some (OCourse c)) cs"
    and "s_filter_courses_locally ca fa s = (x, s')"
  shows "case filter_courses_locally cs f of
           Inl e \<Rightarrow> x = Inl e
         | Inr res \<Rightarrow>
             x = Inr (lim s) \<and>
             (\<exists>rf. objs s' (lim s) = Some (OCourses rf) \<and>
                   map (objs s) rf = map (\<lambda>c. Some (OCourse c)) res)"
proof (cases "cas = []")
  case True
  with assms(4,5,6) show ?thesis
    by (auto simp: s_filter_courses_locally_def filter_courses_locally_def alloc_def)
next
  case False
  let ?s0 = "snd (alloc (OCourses []) s)"
  from assms(5) False have cs: "cs \<noteq> []" by auto
  obtain y s1 where loop: "s_filter_loop cas fa (lim s) ?s0 = (y, s1)"
    by (cases "s_filter_loop cas fa (lim s) ?s0")
  from alloc_unchanged [of "lim s" s "OCourses []"]
  have u: "unchanged_below (lim s) s ?s0" by simp
  have l: "lim s < lim ?s0" and r: "objs ?s0 (lim s) = Some (OCourses [])"
    by (simp_all add: alloc_def)
  from assms(2,4) have below: "list_all (\<lambda>a. a < lim s) cas"
    by (simp add: closed_courses_def)
  have "map (objs s) [] = map (\<lambda>c. Some (OCourse c)) []" by simp
  from s_filter_loop_agrees [OF assms(1,3) order_refl u l below assms(5) r this loop]
  have "case filter_loop cs f [] of
          Inl e \<Rightarrow> y = Inl e
        | Inr res \<Rightarrow>
            y = Inr () \<and>
            (\<exists>rf. objs s1 (lim s) = Some (OCourses rf) \<and>
                  map (objs s) rf = map (\<lambda>c. Some (OCourse c)) res)" .
  moreover from assms(4,6) False loop
  have "x = (case y of Inl e \<Rightarrow> Inl e | Inr u \<Rightarrow> Inr (lim s))" "s' = s1"
    by (simp_all add: s_filter_courses_locally_def alloc_def split: sum.splits)
  ultimately show ?thesis
    using cs by (auto simp: filter_courses_locally_def split: sum.splits)
qed

section \<open>The claims of the specification\<close>

text \<open>
  C1. The local evaluator returns, for every candidate list and every filter bag, the
  candidates for which the subject, difficulty and grade predicates all hold, in input
  order. The code does so whenever \<^verbatim>\<open>int\<close> converts every grade that \<^verbatim>\<open>isdigit\<close>
  accepts (\<open>filter_courses_locally_char\<close>), but not for every filter bag: a grade set
  holding the string of the superscript two (U+00B2), which \<^verbatim>\<open>isdigit\<close> accepts and
  \<^verbatim>\<open>int\<close> refuses, makes the evaluator raise \<^verbatim>\<open>ValueError\<close> on a non-empty candidate
  list instead of returning a list.
\<close>

theorem evaluate_raises_on_superscript_grade:
  "filter_courses_locally
     [\<lparr>course_id = Some 1, course_subjects = Some [], course_difficulty = Some BEGINNER,
       course_grade = Some [2]\<rparr>]
     [''grade'' \<mapsto> [PStr [178]]] = Inl ValueError"
  by (simp add: filter_courses_locally_char dimension_def not_grades_convert_superscript_two)

text \<open>
  C2. \<^verbatim>\<open>filter_courses\<close> never raises to its caller. It does raise: the fallback runs
  the local evaluator on the mock data outside every \<^verbatim>\<open>try\<close> but the one for
  \<^verbatim>\<open>ImportError\<close>, so with the superscript two as a grade and a non-empty mock
  dataset the \<^verbatim>\<open>ValueError\<close> reaches the caller, in degraded mode and, whatever the
  client does, in online mode.
\<close>

theorem filter_courses_raises_on_superscript_grade:
  "filter_courses None
     (Some [\<lparr>course_id = Some 1, course_subjects = Some [], course_difficulty = Some BEGINNER,
             course_grade = Some [2]\<rparr>])
     [''grade'' \<mapsto> [PStr [178]]] = Inl ValueError \<and>
   filter_courses (Some api)
     (Some [\<lparr>course_id = Some 1, course_subjects = Some [], course_difficulty = Some BEGINNER,
             course_grade = Some [2]\<rparr>])
     [''grade'' \<mapsto> [PStr [178]]] = Inl ValueError"
  by (simp add: filter_courses_def fetch_and_filter_def get_fallback_courses_eq
      filter_courses_locally_char dimension_def not_grades_convert_superscript_two
      convert_superscript_two)

text \<open>
  C3. In degraded mode (no API client) \<^verbatim>\<open>filter_courses\<close> returns, for every filter
  bag, the mock dataset filtered by the local evaluator, or the empty list when the
  dataset cannot be imported. It hands the filter bag to the fallback
  (\<open>degraded_mode_delegates\<close>), and returns the filtered dataset whenever \<^verbatim>\<open>int\<close>
  converts every grade that \<^verbatim>\<open>isdigit\<close> accepts (\<open>degraded_mode_returns\<close>), so for
  \<^verbatim>\<open>{"grade": {"9"}}\<close> exactly the mock records whose grade list contains 9
  (\<open>degraded_mode_grade_nine\<close>). But not for every filter bag: with the superscript two
  as a grade and a mock dataset that is not empty it returns nothing, neither the
  filtered dataset nor the empty list; the \<^verbatim>\<open>ValueError\<close> of the local evaluator
  leaves \<^verbatim>\<open>filter_courses\<close>.
\<close>

theorem degraded_mode_raises_on_superscript_grade:
  "filter_courses None
     (Some [\<lparr>course_id = Some 1, course_subjects = None, course_difficulty = None,
             course_grade = Some [9, 10]\<rparr>,
            \<lparr>course_id = Some 2, course_subjects = None, course_difficulty = None,
             course_grade = Some [7]\<rparr>])
     [''grade'' \<mapsto> [PStr [178]]] = Inl ValueError \<and>
   (\<nexists>res. filter_courses None
     (Some [\<lparr>course_id = Some 1, course_subjects = None, course_difficulty = None,
             course_grade = Some [9, 10]\<rparr>,
            \<lparr>course_id = Some 2, course_subjects = None, course_difficulty = None,
             course_grade = Some [7]\<rparr>])
     [''grade'' \<mapsto> [PStr [178]]] = Inr res)"
  by (simp add: degraded_mode_delegates filter_courses_locally_char dimension_def
      not_grades_convert_superscript_two)

text \<open>
  C4. The translator emits at most one parameter per dimension, from the first member
  found in the lookup table, and skips the other members without raising. It raises
  \<^verbatim>\<open>ValueError\<close> on the grade set that holds the superscript two, a member that is not
  in the table, where the claim has it return no parameter.
\<close>

theorem translate_raises_on_superscript_grade:
  "convert_filters_to_api_params [''grade'' \<mapsto> [PStr [178]]] = Inl ValueError"
  by (rule convert_superscript_two)

text \<open>
  C5. \<^verbatim>\<open>get_course_by_id\<close> returns \<open>None\<close> without a client; with a client it returns
  the first record of the full course list whose \<^verbatim>\<open>id\<close> is the one asked for, or
  \<open>None\<close> when there is none; an exception of the fetch gives \<open>None\<close>; it never
  raises.
\<close>

theorem get_course_by_id_spec:
  "get_course_by_id None cid = Inr None \<and>
   (\<forall>e. get_all_courses api = Inl e \<longrightarrow> get_course_by_id (Some api) cid = Inr None) \<and>
   (\<forall>all_courses. get_all_courses api = Inr all_courses \<longrightarrow>
      (\<exists>r. get_course_by_id (Some api) cid = Inr r \<and>
        (case r of
           None \<Rightarrow> \<forall>c \<in> set all_courses. course_id c \<noteq> Some cid
         | Some c \<Rightarrow>
             \<exists>i < length all_courses. c = all_courses ! i \<and> course_id c = Some cid \<and>
               (\<forall>j < i. course_id (all_courses ! j) \<noteq> Some cid)))) \<and>
   (\<exists>r. get_course_by_id client cid = Inr r)"
proof -
  have "\<exists>r. get_course_by_id client cid = Inr r"
    by (simp add: get_course_by_id_def split: option.splits sum.splits)
  moreover have "\<forall>all_courses. get_all_courses api = Inr all_courses \<longrightarrow>
      (\<exists>r. get_course_by_id (Some api) cid = Inr r \<and>
        (case r of
           None \<Rightarrow> \<forall>c \<in> set all_courses. course_id c \<noteq> Some cid
         | Some c \<Rightarrow>
             \<exists>i < length all_courses. c = all_courses ! i \<and> course_id c = Some cid \<and>
               (\<forall>j < i. course_id (all_courses ! j) \<noteq> Some cid)))"
  proof (intro allI impI)
    fix all_courses
    assume "get_all_courses api = Inr all_courses"
    with find_first_spec [where P = "\<lambda>c. course_id c = Some cid" and xs = all_courses] show "\<exists>r. get_course_by_id (Some api) cid = Inr r \<and>
        (case r of
           None \<Rightarrow> \<forall>c \<in> set all_courses. course_id c \<noteq> Some cid
         | Some c \<Rightarrow>
             \<exists>i < length all_courses. c = all_courses ! i \<and> course_id c = Some cid \<and>
               (\<forall>j < i. course_id (all_courses ! j) \<noteq> Some cid))"
      by (simp add: get_course_by_id_def)
  qed
  ultimately show ?thesis
    by (simp add: get_course_by_id_def)
qed

theorem get_course_by_id_witness:
  "get_course_by_id
     (Some \<lparr>get_courses = (\<lambda>ps. Inl APIError),
            get_all_courses =
              Inr [\<lparr>course_id = Some 1, course_subjects = None, course_difficulty = None,
                    course_grade = None\<rparr>,
                   \<lparr>course_id = Some 2, course_subjects = None, course_difficulty = None,
                    course_grade = None\<rparr>]\<rparr>) 2 =
     Inr (Some \<lparr>course_id = Some 2, course_subjects = None, course_difficulty = None,
                course_grade = None\<rparr>) \<and>
   get_course_by_id
     (Some \<lparr>get_courses = (\<lambda>ps. Inl APIError),
            get_all_courses =
              Inr [\<lparr>course_id = Some 1, course_subjects = None, course_difficulty = None,
                    course_grade = None\<rparr>,
                   \<lparr>course_id = Some 2, course_subjects = None, course_difficulty = None,
                    course_grade = None\<rparr>]\<rparr>) 99 = Inr None \<and>
   get_course_by_id
     (Some \<lparr>get_courses = (\<lambda>ps. Inl APIError),
            get_all_courses = (Inl APIError :: exn + course list)\<rparr>) 2 = Inr None"
  using get_course_by_id_spec
    [of 2 "\<lparr>get_courses = (\<lambda>ps. Inl APIError),
            get_all_courses =
              Inr [\<lparr>course_id = Some 1, course_subjects = None, course_difficulty = None,
                    course_grade = None\<rparr>,
                   \<lparr>course_id = Some 2, course_subjects = None, course_difficulty = None,
                    course_grade = None\<rparr>]\<rparr>" None]
  by (simp add: get_course_by_id_def)



text \<open>
  C7. When the subjects, difficulty and grade sets of the filter bag are all empty or
  absent, the translator returns the empty parameter mapping and the local evaluator
  returns its input list unchanged.
\<close>

theorem empty_filter_bag_translate_empty_evaluate_identity:
  assumes "f ''subjects'' = None \<or> f ''subjects'' = Some []"
    and "f ''difficulty'' = None \<or> f ''difficulty'' = Some []"
    and "f ''grade'' = None \<or> f ''grade'' = Some []"
  shows "convert_filters_to_api_params f = Inr [] \<and> filter_courses_locally cs f = Inr cs"
proof -
  from assms have d: "dimension f ''subjects'' = []" "dimension f ''difficulty'' = []"
      "dimension f ''grade'' = []"
    by (simp_all add: dimension_empty_iff)
  then have "convert_filters_to_api_params f = Inr []"
    by (simp add: convert_filters_to_api_params_spec grades_convert_def spec_params_def
        normalized_grades_def)
  moreover from d have "filter_courses_locally cs f = Inr cs"
    by (simp add: filter_courses_locally_char grades_convert_def spec_keep_def
        spec_subject_match_def spec_difficulty_match_def spec_grade_match_def)
  ultimately show ?thesis by simp
qed

theorem empty_filter_bag_witness:
  "convert_filters_to_api_params [''grade'' \<mapsto> []] = Inr [] \<and>
   filter_courses_locally
     [\<lparr>course_id = Some 1, course_subjects = Some [[97]], course_difficulty = Some BEGINNER,
       course_grade = Some [9]\<rparr>,
      \<lparr>course_id = Some 2, course_subjects = None, course_difficulty = None,
       course_grade = None\<rparr>]
     [''grade'' \<mapsto> []] =
   Inr [\<lparr>course_id = Some 1, course_subjects = Some [[97]], course_difficulty = Some BEGINNER,
         course_grade = Some [9]\<rparr>,
        \<lparr>course_id = Some 2, course_subjects = None, course_difficulty = None,
         course_grade = None\<rparr>]"
  using empty_filter_bag_translate_empty_evaluate_identity
    [of "[''grade'' \<mapsto> []]"
        "[\<lparr>course_id = Some 1, course_subjects = Some [[97]], course_difficulty = Some BEGINNER,
           course_grade = Some [9]\<rparr>,
          \<lparr>course_id = Some 2, course_subjects = None, course_difficulty = None,
           course_grade = None\<rparr>]"]
  by simp

text \<open>
  C8. Neither the translator nor the local evaluator mutates the filter bag or the
  candidates. On the object store: whatever either function returns, every object that
  existed before the call (the filter bag, its sets, the candidate list, the candidate
  records) is the same object after it, and the filter bag read from the store is the
  same mapping with the same sets. The functions write only to the containers they
  have allocated themselves.
\<close>

theorem filter_bag_and_candidates_not_mutated:
  assumes "s_convert_filters_to_api_params fa s = (r, s') \<or>
    s_filter_courses_locally ca fa s = (r, s')"
  shows "(\<forall>a < lim s. objs s' a = objs s a) \<and>
    (closed_bag s fa \<longrightarrow> bag_of s' fa = bag_of s fa)"
proof -
  from assms have "unchanged_below (lim s) s s'"
  proof
    assume "s_convert_filters_to_api_params fa s = (r, s')"
    with s_convert_filters_unchanged [of s fa] show ?thesis by simp
  next
    assume "s_filter_courses_locally ca fa s = (r, s')"
    then show ?thesis by (rule s_filter_courses_locally_unchanged)
  qed
  then show ?thesis
    by (simp add: bag_of_unchanged) (simp add: unchanged_below_def)
qed

theorem filter_bag_not_mutated_witness:
  "fst (s_filter_courses_locally 3 2 example_store) = Inr 4 \<and>
   objs (snd (s_filter_courses_locally 3 2 example_store)) 4 = Some (OCourses [1]) \<and>
   objs (snd (s_filter_courses_locally 3 2 example_store)) 0 = Some (OSet [PStr [57], PInt 10]) \<and>
   objs (snd (s_filter_courses_locally 3 2 example_store)) 2 = Some (OFilters [(''grade'', 0)]) \<and>
   bag_of (snd (s_filter_courses_locally 3 2 example_store)) 2 = bag_of example_store 2 \<and>
   bag_of (snd (s_convert_filters_to_api_params 2 example_store)) 2 = bag_of example_store 2"
proof -
  have c: "closed_bag example_store 2" and l: "lim example_store = 4"
    by (simp_all add: closed_bag_def example_store_def)
  have o: "objs example_store 0 = Some (OSet [PStr [57], PInt 10])"
    "objs example_store 2 = Some (OFilters [(''grade'', 0)])"
    by (simp_all add: example_store_def)
  have e: "(\<forall>a < lim example_store.
        objs (snd (s_filter_courses_locally 3 2 example_store)) a = objs example_store a) \<and>
      (closed_bag example_store 2 \<longrightarrow>
        bag_of (snd (s_filter_courses_locally 3 2 example_store)) 2 = bag_of example_store 2)"
    by (rule filter_bag_and_candidates_not_mutated [OF disjI2 [OF surjective_pairing]])
  have t: "(\<forall>a < lim example_store.
        objs (snd (s_convert_filters_to_api_params 2 example_store)) a = objs example_store a) \<and>
      (closed_bag example_store 2 \<longrightarrow>
        bag_of (snd (s_convert_filters_to_api_params 2 example_store)) 2 =
          bag_of example_store 2)"
    by (rule filter_bag_and_candidates_not_mutated [OF disjI1 [OF surjective_pairing]])
  from e t c o example_store_evaluate show ?thesis
    by (simp add: l)
qed

text \<open>
  C9. When the grade set is non-empty and none of its members is an integer or a string
  that \<^verbatim>\<open>isdigit\<close> accepts, the set of user grades is empty, the grade predicate is
  false for every candidate, and the local evaluator returns the empty list.
\<close>

theorem unusable_grades_reject_all:
  assumes "f ''grade'' = Some gs" and "gs \<noteq> []"
    and "\<forall>g \<in> set gs. \<exists>s. g = PStr s \<and> \<not> isdigit s"
  shows "filter_courses_locally cs f = Inr []"
proof -
  from assms(1) have d: "dimension f ''grade'' = gs"
    by (simp add: dimension_def)
  from assms(3) have "grades_convert gs"
    by (auto simp: grades_convert_def list_all_iff)
  moreover from assms(3) have "normalized_grades gs = []"
    by (auto simp: normalized_grades_def)
  ultimately show ?thesis
    using d assms(2)
    by (simp add: filter_courses_locally_char spec_keep_def spec_grade_match_def)
qed

theorem unusable_grades_witness:
  "filter_courses_locally
     [\<lparr>course_id = Some 1, course_subjects = Some [[97]], course_difficulty = Some BEGINNER,
       course_grade = Some [5, 9]\<rparr>]
     [''grade'' \<mapsto> [PStr [97, 98, 99], PStr [45, 53]]] = Inr []"
  using unusable_grades_reject_all
    [of "[''grade'' \<mapsto> [PStr [97, 98, 99], PStr [45, 53]]]"
        "[PStr [97, 98, 99], PStr [45, 53]]"
        "[\<lparr>course_id = Some 1, course_subjects = Some [[97]], course_difficulty = Some BEGINNER,
           course_grade = Some [5, 9]\<rparr>]"]
  by (simp add: not_isdigit_abc not_isdigit_minus_five)

text \<open>
  C10. Under a non-empty subjects (grade) set, a candidate without the \<^verbatim>\<open>subjects\<close>
  (\<^verbatim>\<open>grade\<close>) field fails the subject (grade) test, the missing field being read as
  the empty list, and is in no list the evaluator returns. Under a non-empty difficulty
  set, a candidate without the \<^verbatim>\<open>difficulty\<close> field is read as having the empty
  string: it passes the difficulty test exactly when the empty string is selected, and
  otherwise is in no list the evaluator returns.
\<close>

theorem candidate_missing_field_rejected:
  "(dimension f ''subjects'' \<noteq> [] \<and> course_subjects c = None \<longrightarrow>
      \<not> subjects_match f c \<and>
      (\<forall>res. filter_courses_locally cs f = Inr res \<longrightarrow> c \<notin> set res)) \<and>
   (dimension f ''grade'' \<noteq> [] \<and> course_grade c = None \<longrightarrow>
      grade_match f c \<noteq> Inr True \<and>
      (\<forall>res. filter_courses_locally cs f = Inr res \<longrightarrow> c \<notin> set res)) \<and>
   (dimension f ''difficulty'' \<noteq> [] \<and> course_difficulty c = None \<longrightarrow>
      difficulty_match f c = (PStr [] \<in> set (dimension f ''difficulty'')) \<and>
      (PStr [] \<notin> set (dimension f ''difficulty'') \<longrightarrow>
        (\<forall>res. filter_courses_locally cs f = Inr res \<longrightarrow> c \<notin> set res)))"
proof (intro conjI impI allI)
  assume a: "dimension f ''subjects'' \<noteq> [] \<and> course_subjects c = None"
  then have n: "\<not> spec_subject_match f c"
    by (simp add: spec_subject_match_def subjects_of_def)
  then show "\<not> subjects_match f c"
    by (simp add: subjects_match_spec)
  fix res
  assume "filter_courses_locally cs f = Inr res"
  with n show "c \<notin> set res"
    by (auto dest: filter_courses_locally_kept simp: spec_keep_def)
next
  assume a: "dimension f ''grade'' \<noteq> [] \<and> course_grade c = None"
  then have n: "\<not> spec_grade_match f c"
    by (simp add: spec_grade_match_def grades_of_def)
  then show "grade_match f c \<noteq> Inr True"
    by (simp add: grade_match_spec)
  fix res
  assume "filter_courses_locally cs f = Inr res"
  with n show "c \<notin> set res"
    by (auto dest: filter_courses_locally_kept simp: spec_keep_def)
next
  assume a: "dimension f ''difficulty'' \<noteq> [] \<and> course_difficulty c = None"
  then show m: "difficulty_match f c = (PStr [] \<in> set (dimension f ''difficulty''))"
    by (simp add: difficulty_match_spec spec_difficulty_match_def difficulty_of_def
        inverse_label_empty)
  fix res
  assume "PStr [] \<notin> set (dimension f ''difficulty'')"
    and "filter_courses_locally cs f = Inr res"
  with m show "c \<notin> set res"
    by (auto dest: filter_courses_locally_kept simp: spec_keep_def difficulty_match_spec)
qed

theorem candidate_missing_field_witness:
  "filter_courses_locally
     [\<lparr>course_id = Some 1, course_subjects = None, course_difficulty = Some BEGINNER,
       course_grade = Some [9]\<rparr>,
      \<lparr>course_id = Some 2, course_subjects = Some [[97]], course_difficulty = None,
       course_grade = Some [9]\<rparr>]
     [''subjects'' \<mapsto> [PStr [97]]] =
   Inr [\<lparr>course_id = Some 2, course_subjects = Some [[97]], course_difficulty = None,
         course_grade = Some [9]\<rparr>] \<and>
   filter_courses_locally
     [\<lparr>course_id = Some 1, course_subjects = None, course_difficulty = Some BEGINNER,
       course_grade = None\<rparr>,
      \<lparr>course_id = Some 2, course_subjects = Some [[97]], course_difficulty = None,
       course_grade = Some [9]\<rparr>]
     [''grade'' \<mapsto> [PStr [57]]] =
   Inr [\<lparr>course_id = Some 2, course_subjects = Some [[97]], course_difficulty = None,
         course_grade = Some [9]\<rparr>] \<and>
   filter_courses_locally
     [\<lparr>course_id = Some 1, course_subjects = None, course_difficulty = Some BEGINNER,
       course_grade = None\<rparr>,
      \<lparr>course_id = Some 2, course_subjects = Some [[97]], course_difficulty = None,
       course_grade = Some [9]\<rparr>]
     [''difficulty'' \<mapsto> [PStr [97]]] = Inr [] \<and>
   filter_courses_locally
     [\<lparr>course_id = Some 2, course_subjects = Some [[97]], course_difficulty = None,
       course_grade = Some [9]\<rparr>]
     [''difficulty'' \<mapsto> [PStr [97], PStr []]] =
   Inr [\<lparr>course_id = Some 2, course_subjects = Some [[97]], course_difficulty = None,
         course_grade = Some [9]\<rparr>]"
  using candidate_missing_field_rejected
    [of "[''subjects'' \<mapsto> [PStr [97]]]"
        "\<lparr>course_id = Some 1, course_subjects = None, course_difficulty = Some BEGINNER,
          course_grade = Some [9]\<rparr>"
        "[\<lparr>course_id = Some 1, course_subjects = None, course_difficulty = Some BEGINNER,
           course_grade = Some [9]\<rparr>,
          \<lparr>course_id = Some 2, course_subjects = Some [[97]], course_difficulty = None,
           course_grade = Some [9]\<rparr>]"]
  by (simp add: filter_courses_locally_char dimension_def grades_convert_def spec_keep_def
      spec_subject_match_def spec_difficulty_match_def spec_grade_match_def subjects_of_def
      difficulty_of_def grades_of_def normalized_grades_def isdigit_nine py_int_nine
      inverse_label_empty inverse_label_def DIFFICULTY_TO_LEVEL_def BEGINNER_def
      INTERMEDIATE_def ADVANCED_def)

end
